theory Spec2Isabelle
  imports Complex_Main
begin

section \<open>JavaScript numbers\<close>

text \<open>
  Every number of \<^verbatim>\<open>shm-simulation.js\<close> is a JavaScript Number. A finite Number is
  idealised as a real (rounding, overflow and the sign of zero are not modelled:
  \<open>Fin 0\<close> stands for \<open>+0\<close>); the three special values are kept, with the
  arithmetic IEEE 754 gives them, since HOL's total \<open>x / 0 = 0\<close> is not what the
  program computes.
\<close>

datatype jsnum = Fin real | PInf | NInf | NaN

fun jadd :: "jsnum \<Rightarrow> jsnum \<Rightarrow> jsnum" where
  "jadd (Fin a) (Fin b) = Fin (a + b)"
| "jadd NaN _ = NaN"
| "jadd _ NaN = NaN"
| "jadd PInf NInf = NaN"
| "jadd NInf PInf = NaN"
| "jadd PInf _ = PInf"
| "jadd _ PInf = PInf"
| "jadd NInf _ = NInf"
| "jadd _ NInf = NInf"

fun jneg :: "jsnum \<Rightarrow> jsnum" where
  "jneg (Fin a) = Fin (- a)"
| "jneg PInf = NInf"
| "jneg NInf = PInf"
| "jneg NaN = NaN"

fun jmul :: "jsnum \<Rightarrow> jsnum \<Rightarrow> jsnum" where
  "jmul (Fin a) (Fin b) = Fin (a * b)"
| "jmul NaN _ = NaN"
| "jmul _ NaN = NaN"
| "jmul (Fin a) PInf = (if a = 0 then NaN else if 0 < a then PInf else NInf)"
| "jmul (Fin a) NInf = (if a = 0 then NaN else if 0 < a then NInf else PInf)"
| "jmul PInf (Fin b) = (if b = 0 then NaN else if 0 < b then PInf else NInf)"
| "jmul NInf (Fin b) = (if b = 0 then NaN else if 0 < b then NInf else PInf)"
| "jmul PInf PInf = PInf"
| "jmul PInf NInf = NInf"
| "jmul NInf PInf = NInf"
| "jmul NInf NInf = PInf"

fun jdiv :: "jsnum \<Rightarrow> jsnum \<Rightarrow> jsnum" where
  "jdiv (Fin a) (Fin b) =
     (if b = 0 then (if a = 0 then NaN else if 0 < a then PInf else NInf)
      else Fin (a / b))"
| "jdiv NaN _ = NaN"
| "jdiv _ NaN = NaN"
| "jdiv (Fin a) PInf = Fin 0"
| "jdiv (Fin a) NInf = Fin 0"
| "jdiv PInf (Fin b) = (if 0 \<le> b then PInf else NInf)"
| "jdiv NInf (Fin b) = (if 0 \<le> b then NInf else PInf)"
| "jdiv PInf PInf = NaN"
| "jdiv PInf NInf = NaN"
| "jdiv NInf PInf = NaN"
| "jdiv NInf NInf = NaN"

text \<open>The comparisons \<^verbatim>\<open><\<close> and \<^verbatim>\<open><=\<close>: false as soon as one side is \<open>NaN\<close>.\<close>

fun jlt :: "jsnum \<Rightarrow> jsnum \<Rightarrow> bool" where
  "jlt (Fin a) (Fin b) = (a < b)"
| "jlt NaN _ = False"
| "jlt _ NaN = False"
| "jlt _ NInf = False"
| "jlt PInf _ = False"
| "jlt NInf _ = True"
| "jlt _ PInf = True"

fun jle :: "jsnum \<Rightarrow> jsnum \<Rightarrow> bool" where
  "jle (Fin a) (Fin b) = (a \<le> b)"
| "jle NaN _ = False"
| "jle _ NaN = False"
| "jle NInf _ = True"
| "jle _ PInf = True"
| "jle _ NInf = False"
| "jle PInf _ = False"

instantiation jsnum :: "{plus, minus, uminus, times, inverse, ord}"
begin

definition plus_jsnum :: "jsnum \<Rightarrow> jsnum \<Rightarrow> jsnum" where
  "plus_jsnum a b = jadd a b"

definition uminus_jsnum :: "jsnum \<Rightarrow> jsnum" where
  "uminus_jsnum a = jneg a"

definition minus_jsnum :: "jsnum \<Rightarrow> jsnum \<Rightarrow> jsnum" where
  "minus_jsnum a b = jadd a (jneg b)"

definition times_jsnum :: "jsnum \<Rightarrow> jsnum \<Rightarrow> jsnum" where
  "times_jsnum a b = jmul a b"

definition divide_jsnum :: "jsnum \<Rightarrow> jsnum \<Rightarrow> jsnum" where
  "divide_jsnum a b = jdiv a b"

definition inverse_jsnum :: "jsnum \<Rightarrow> jsnum" where
  "inverse_jsnum a = jdiv (Fin 1) a"

definition less_jsnum :: "jsnum \<Rightarrow> jsnum \<Rightarrow> bool" where
  "less_jsnum a b = jlt a b"

definition less_eq_jsnum :: "jsnum \<Rightarrow> jsnum \<Rightarrow> bool" where
  "less_eq_jsnum a b = jle a b"

instance ..

end

text \<open>\<^verbatim>\<open>Math.sqrt\<close>, \<^verbatim>\<open>Math.cos\<close>, \<^verbatim>\<open>Math.sin\<close>, \<^verbatim>\<open>Math.PI\<close>.\<close>

fun Math_sqrt :: "jsnum \<Rightarrow> jsnum" where
  "Math_sqrt (Fin a) = (if a < 0 then NaN else Fin (sqrt a))"
| "Math_sqrt PInf = PInf"
| "Math_sqrt NInf = NaN"
| "Math_sqrt NaN = NaN"

fun Math_cos :: "jsnum \<Rightarrow> jsnum" where
  "Math_cos (Fin a) = Fin (cos a)"
| "Math_cos _ = NaN"

fun Math_sin :: "jsnum \<Rightarrow> jsnum" where
  "Math_sin (Fin a) = Fin (sin a)"
| "Math_sin _ = NaN"

definition Math_PI :: jsnum where
  "Math_PI = Fin pi"

text \<open>
  \<^verbatim>\<open>Number.MAX_VALUE\<close> and \<^verbatim>\<open>Number.MIN_VALUE\<close>, the largest and the smallest
  positive double. The arithmetic above keeps a finite result as the exact real, while
  a double result beyond \<open>MAX_VALUE\<close> overflows to an infinity and one below
  \<open>MIN_VALUE\<close> underflows to 0. A statement that a computed value is finite is
  therefore made only for operands whose exact results stay inside this range, with
  the range as a hypothesis.
\<close>

definition MAX_VALUE :: real where
  "MAX_VALUE = 2 ^ 1024 - 2 ^ 971"

definition MIN_VALUE :: real where
  "MIN_VALUE = 1 / 2 ^ 1074"

text \<open>
  The remainder \<^verbatim>\<open>a % b\<close>: the quotient is truncated towards zero, so the result has
  the sign of the dividend; \<open>NaN\<close> for an infinite dividend or a zero divisor, the
  dividend itself for an infinite divisor.
\<close>

fun jsrem :: "jsnum \<Rightarrow> jsnum \<Rightarrow> jsnum" where
  "jsrem (Fin a) (Fin b) =
     (if b = 0 then NaN
      else Fin (a - b * of_int (if 0 \<le> a / b then \<lfloor>a / b\<rfloor> else \<lceil>a / b\<rceil>)))"
| "jsrem NaN _ = NaN"
| "jsrem _ NaN = NaN"
| "jsrem PInf _ = NaN"
| "jsrem NInf _ = NaN"
| "jsrem (Fin a) PInf = Fin a"
| "jsrem (Fin a) NInf = Fin a"

text \<open>Truthiness of a Number: \<open>0\<close> and \<open>NaN\<close> are falsy.\<close>

fun truthy :: "jsnum \<Rightarrow> bool" where
  "truthy (Fin a) = (a \<noteq> 0)"
| "truthy NaN = False"
| "truthy PInf = True"
| "truthy NInf = True"

text \<open>\<^verbatim>\<open>v || d\<close> for a variable that holds a Number or is still \<^verbatim>\<open>undefined\<close>.\<close>

fun or_else :: "jsnum option \<Rightarrow> jsnum \<Rightarrow> jsnum" where
  "or_else None d = d"
| "or_else (Some v) d = (if truthy v then v else d)"

section \<open>The 2D drawing context\<close>

text \<open>
  A canvas context is the browser's: its drawing state (the properties the program
  assigns), the current path, and the surface, kept as the list of paint operations
  since the canvas was last cleared as a whole, each with the styles in force when it
  was painted. Coordinates are recorded as passed.
\<close>

datatype seg =
  MoveTo jsnum jsnum
| LineTo jsnum jsnum
| Arc jsnum jsnum jsnum jsnum jsnum

datatype paint =
  FillRect jsnum jsnum jsnum jsnum string
| StrokeRect jsnum jsnum jsnum jsnum string jsnum "jsnum list"
| StrokePath "seg list" string jsnum "jsnum list"
| FillPath "seg list" string
| FillText string jsnum jsnum string string string
| Cleared jsnum jsnum jsnum jsnum

record ctx2d =
  canvas_width :: jsnum
  canvas_height :: jsnum
  fillStyle :: string
  strokeStyle :: string
  lineWidth :: jsnum
  font :: string
  textAlign :: string
  lineDash :: "jsnum list"
  path :: "seg list"
  surface :: "paint list"

text \<open>The calls and property assignments the program makes on a context.\<close>

datatype call =
  clearRect jsnum jsnum jsnum jsnum
| set_fillStyle string
| set_strokeStyle string
| set_lineWidth jsnum
| set_font string
| set_textAlign string
| setLineDash "jsnum list"
| beginPath
| moveTo jsnum jsnum
| lineTo jsnum jsnum
| arc jsnum jsnum jsnum jsnum jsnum
| stroke
| fill
| fillRect jsnum jsnum jsnum jsnum
| strokeRect jsnum jsnum jsnum jsnum
| fillText string jsnum jsnum

fun exec :: "ctx2d \<Rightarrow> call \<Rightarrow> ctx2d" where
  "exec c (clearRect x y w h) =
     (if x = Fin 0 \<and> y = Fin 0 \<and> w = canvas_width c \<and> h = canvas_height c
      then c\<lparr>surface := []\<rparr>
      else c\<lparr>surface := surface c @ [Cleared x y w h]\<rparr>)"
| "exec c (set_fillStyle v) = c\<lparr>fillStyle := v\<rparr>"
| "exec c (set_strokeStyle v) = c\<lparr>strokeStyle := v\<rparr>"
| "exec c (set_lineWidth v) = c\<lparr>lineWidth := v\<rparr>"
| "exec c (set_font v) = c\<lparr>font := v\<rparr>"
| "exec c (set_textAlign v) = c\<lparr>textAlign := v\<rparr>"
| "exec c (setLineDash v) = c\<lparr>lineDash := v\<rparr>"
| "exec c beginPath = c\<lparr>path := []\<rparr>"
| "exec c (moveTo x y) = c\<lparr>path := path c @ [MoveTo x y]\<rparr>"
| "exec c (lineTo x y) = c\<lparr>path := path c @ [LineTo x y]\<rparr>"
| "exec c (arc x y r a0 a1) = c\<lparr>path := path c @ [Arc x y r a0 a1]\<rparr>"
| "exec c stroke =
     c\<lparr>surface := surface c @ [StrokePath (path c) (strokeStyle c) (lineWidth c) (lineDash c)]\<rparr>"
| "exec c fill = c\<lparr>surface := surface c @ [FillPath (path c) (fillStyle c)]\<rparr>"
| "exec c (fillRect x y w h) = c\<lparr>surface := surface c @ [FillRect x y w h (fillStyle c)]\<rparr>"
| "exec c (strokeRect x y w h) =
     c\<lparr>surface := surface c @ [StrokeRect x y w h (strokeStyle c) (lineWidth c) (lineDash c)]\<rparr>"
| "exec c (fillText t x y) =
     c\<lparr>surface := surface c @ [FillText t x y (fillStyle c) (font c) (textAlign c)]\<rparr>"

definition run :: "call list \<Rightarrow> ctx2d \<Rightarrow> ctx2d" where
  "run cs c = foldl exec c cs"

text \<open>A context as \<^verbatim>\<open>getContext('2d')\<close> hands it out, for a canvas of the given size.\<close>

definition fresh_ctx :: "jsnum \<Rightarrow> jsnum \<Rightarrow> ctx2d" where
  "fresh_ctx w h =
     \<lparr>canvas_width = w, canvas_height = h, fillStyle = ''#000000'',
      strokeStyle = ''#000000'', lineWidth = Fin 1, font = ''10px sans-serif'',
      textAlign = ''start'', lineDash = [], path = [], surface = []\<rparr>"

section \<open>The simulation state\<close>

text \<open>
  The script's top-level variables, the \<^verbatim>\<open>lastTime\<close> property it keeps on
  \<^verbatim>\<open>animationLoop\<close>, its two canvas contexts, and the browser's list of animation
  frame requests that were made and neither run nor cancelled (the only callback ever
  requested is \<^verbatim>\<open>animationLoop\<close>, so a request is its handle). The three text labels
  beside the sliders are display only and are left out.
\<close>

datatype sample = Sample (sample_time: jsnum) (sample_position: jsnum)

record sim_state =
  mass :: jsnum
  springConstant :: jsnum
  initialAmplitude :: jsnum
  angularFrequency :: jsnum
  period :: jsnum
  time :: jsnum
  position :: jsnum
  velocity :: jsnum
  animationFrameId :: "nat option"
  simulationActive :: bool
  graphHistory :: "sample list"
  lastTime :: "jsnum option"
  simCtx :: ctx2d
  graphCtx :: ctx2d
  rafPending :: "nat list"
  rafNext :: nat

subsection \<open>Drawing properties\<close>

definition simScale :: jsnum where
  "simScale = Fin 100"

definition blockWidth :: jsnum where
  "blockWidth = Fin 60"

definition blockHeight :: jsnum where
  "blockHeight = Fin 40"

definition wallX :: jsnum where
  "wallX = Fin 50"

definition groundY :: "sim_state \<Rightarrow> jsnum" where
  "groundY s = canvas_height (simCtx s) - Fin 50"

definition equilibriumX :: jsnum where
  "equilibriumX = wallX + Fin 200"

definition graphScaleY :: jsnum where
  "graphScaleY = Fin 80"

definition graphScaleX :: jsnum where
  "graphScaleX = Fin 50"

definition graphOriginX :: jsnum where
  "graphOriginX = Fin 50"

definition graphOriginY :: "sim_state \<Rightarrow> jsnum" where
  "graphOriginY s = canvas_height (graphCtx s) / Fin 2"

subsection \<open>The browser's animation frame requests\<close>

definition requestAnimationFrame :: "sim_state \<Rightarrow> nat \<times> sim_state" where
  "requestAnimationFrame s =
     (rafNext s, s\<lparr>rafPending := rafPending s @ [rafNext s], rafNext := Suc (rafNext s)\<rparr>)"

definition cancelAnimationFrame :: "nat \<Rightarrow> sim_state \<Rightarrow> sim_state" where
  "cancelAnimationFrame h s = s\<lparr>rafPending := removeAll h (rafPending s)\<rparr>"

section \<open>Drawing functions\<close>

definition currentBlockX :: "sim_state \<Rightarrow> jsnum" where
  "currentBlockX s = equilibriumX + position s * simScale"

definition drawSimulation_calls :: "sim_state \<Rightarrow> call list" where
  "drawSimulation_calls s =
     (let W = canvas_width (simCtx s); H = canvas_height (simCtx s); gY = groundY s;
          springStartX = wallX;
          springEndX = currentBlockX s - blockWidth / Fin 2;
          numCoils = 15;
          coilLength = (springEndX - springStartX) / Fin (real numCoils);
          coilHeight = Fin 15
      in
      [clearRect (Fin 0) (Fin 0) W H,
       set_fillStyle ''#d3d3d3'',
       fillRect (Fin 0) gY W (H - gY),
       set_strokeStyle ''#888'',
       set_lineWidth (Fin 2),
       beginPath,
       moveTo (Fin 0) gY,
       lineTo W gY,
       stroke,
       set_fillStyle ''#666'',
       fillRect (wallX - Fin 10) (gY - Fin 100) (Fin 20) (Fin 100),
       fillRect (wallX - Fin 10) (gY - Fin 100) (Fin 20) (Fin 100),
       set_strokeStyle ''#333'',
       set_lineWidth (Fin 2),
       strokeRect (wallX - Fin 10) (gY - Fin 100) (Fin 20) (Fin 100),
       set_strokeStyle ''#3498db'',
       set_lineWidth (Fin 3),
       beginPath,
       moveTo springStartX (gY - blockHeight / Fin 2)]
      @ map (\<lambda>i. lineTo (springStartX + Fin (real i) * coilLength)
                 (gY - blockHeight / Fin 2 + (if i mod 2 = 0 then coilHeight else - coilHeight)))
          [0..<Suc numCoils]
      @ [stroke,
       set_fillStyle ''#e74c3c'',
       fillRect (currentBlockX s - blockWidth / Fin 2) (gY - blockHeight) blockWidth blockHeight,
       set_strokeStyle ''#c0392b'',
       set_lineWidth (Fin 2),
       strokeRect (currentBlockX s - blockWidth / Fin 2) (gY - blockHeight) blockWidth blockHeight,
       set_font ''14px Arial'',
       set_fillStyle ''black'',
       set_textAlign ''center'',
       set_strokeStyle ''rgba(0, 0, 0, 0.5)'',
       setLineDash [Fin 5, Fin 5],
       beginPath,
       moveTo equilibriumX (gY - blockHeight - Fin 20),
       lineTo equilibriumX (gY + Fin 20),
       stroke,
       fillText ''Equilibrium (x=0)'' equilibriumX (gY + Fin 35),
       set_strokeStyle ''rgba(0, 128, 0, 0.7)'',
       beginPath,
       moveTo (equilibriumX + initialAmplitude s * simScale) (gY - blockHeight - Fin 20),
       lineTo (equilibriumX + initialAmplitude s * simScale) (gY + Fin 20),
       stroke,
       beginPath,
       moveTo (equilibriumX - initialAmplitude s * simScale) (gY - blockHeight - Fin 20),
       lineTo (equilibriumX - initialAmplitude s * simScale) (gY + Fin 20),
       stroke,
       setLineDash []])"

definition drawSimulation :: "sim_state \<Rightarrow> sim_state" where
  "drawSimulation s = s\<lparr>simCtx := run (drawSimulation_calls s) (simCtx s)\<rparr>"

text \<open>The scroll offset that keeps the newest sample at the right edge of the plot.\<close>

definition currentGraphXOffset :: "sim_state \<Rightarrow> jsnum" where
  "currentGraphXOffset s =
     (if length (graphHistory s) > 0
      then sample_time (last (graphHistory s)) * graphScaleX
             - (canvas_width (graphCtx s) - graphOriginX)
      else Fin 0)"

definition periodStartX :: "sim_state \<Rightarrow> jsnum" where
  "periodStartX s =
     graphOriginX + (time s - jsrem (time s) (period s)) * graphScaleX - currentGraphXOffset s"

definition drawGraph_calls :: "sim_state \<Rightarrow> call list" where
  "drawGraph_calls s =
     (let W = canvas_width (graphCtx s); H = canvas_height (graphCtx s); oY = graphOriginY s;
          A = initialAmplitude s;
          currentX = graphOriginX + time s * graphScaleX - currentGraphXOffset s;
          currentY = oY - position s * graphScaleY
      in
      [clearRect (Fin 0) (Fin 0) W H,
       set_strokeStyle ''#666'',
       set_lineWidth (Fin 1),
       beginPath,
       moveTo graphOriginX (Fin 0),
       lineTo graphOriginX H,
       moveTo (Fin 0) oY,
       lineTo W oY,
       stroke,
       set_font ''12px Arial'',
       set_fillStyle ''black'',
       set_textAlign ''center'',
       fillText ''Time (s)'' (W / Fin 2) (H - Fin 10),
       set_textAlign ''right'',
       fillText ''Displacement (m)'' (graphOriginX - Fin 5) (Fin 10),
       set_strokeStyle ''rgba(0, 128, 0, 0.5)'',
       setLineDash [Fin 3, Fin 3],
       beginPath,
       moveTo graphOriginX (oY - A * graphScaleY),
       lineTo W (oY - A * graphScaleY),
       stroke,
       beginPath,
       moveTo graphOriginX (oY + A * graphScaleY),
       lineTo W (oY + A * graphScaleY),
       stroke,
       setLineDash [],
       set_strokeStyle ''#e74c3c'',
       set_lineWidth (Fin 2),
       beginPath]
      @ map (\<lambda>(index, point).
               let x = graphOriginX + sample_time point * graphScaleX - currentGraphXOffset s;
                   y = oY - sample_position point * graphScaleY
               in if index = 0 then moveTo x y else lineTo x y)
          (enumerate 0 (graphHistory s))
      @ [stroke,
       set_fillStyle ''blue'',
       beginPath,
       arc currentX currentY (Fin 4) (Fin 0) (Math_PI * Fin 2),
       fill]
      @ (if time s \<ge> period s then
          [set_strokeStyle ''purple'',
           setLineDash [Fin 2, Fin 4],
           beginPath,
           moveTo (periodStartX s) (oY - A * graphScaleY - Fin 10),
           lineTo (periodStartX s + period s * graphScaleX) (oY - A * graphScaleY - Fin 10),
           stroke,
           beginPath,
           moveTo (periodStartX s) (oY - A * graphScaleY - Fin 10),
           lineTo (periodStartX s + Fin 5) (oY - A * graphScaleY - Fin 15),
           moveTo (periodStartX s) (oY - A * graphScaleY - Fin 10),
           lineTo (periodStartX s + Fin 5) (oY - A * graphScaleY - Fin 5),
           stroke,
           beginPath,
           moveTo (periodStartX s + period s * graphScaleX) (oY - A * graphScaleY - Fin 10),
           lineTo (periodStartX s + period s * graphScaleX - Fin 5) (oY - A * graphScaleY - Fin 15),
           moveTo (periodStartX s + period s * graphScaleX) (oY - A * graphScaleY - Fin 10),
           lineTo (periodStartX s + period s * graphScaleX - Fin 5) (oY - A * graphScaleY - Fin 5),
           stroke,
           set_textAlign ''center'',
           setLineDash []]
         else []))"

definition drawGraph :: "sim_state \<Rightarrow> sim_state" where
  "drawGraph s = s\<lparr>graphCtx := run (drawGraph_calls s) (graphCtx s)\<rparr>"

section \<open>Simulation logic\<close>

definition updatePhysics :: "jsnum \<Rightarrow> sim_state \<Rightarrow> sim_state" where
  "updatePhysics deltaTime s =
     (let time' = time s + deltaTime;
          position' = initialAmplitude s * Math_cos (angularFrequency s * time');
          velocity' = - initialAmplitude s * angularFrequency s
                        * Math_sin (angularFrequency s * time');
          pushed = graphHistory s @ [Sample time' position'];
          history' =
            (if Fin (real (length pushed)) * (graphScaleX * Fin 0.03)
                  > canvas_width (graphCtx s) - graphOriginX
             then tl pushed else pushed)
      in s\<lparr>time := time', position := position', velocity := velocity',
            graphHistory := history'\<rparr>)"

definition resetSimulation :: "sim_state \<Rightarrow> sim_state" where
  "resetSimulation s =
     (let s1 = (case animationFrameId s of
                  None \<Rightarrow> s
                | Some h \<Rightarrow> if h \<noteq> 0 then cancelAnimationFrame h s else s);
          s2 = s1\<lparr>simulationActive := False, time := Fin 0,
                   position := initialAmplitude s1, velocity := Fin 0, graphHistory := []\<rparr>
      in drawGraph (drawSimulation s2))"

text \<open>
  \<open>updateParameters\<close> reads the three sliders; the arguments are what
  \<^verbatim>\<open>parseFloat\<close> returned for them, any Number.
\<close>

definition updateParameters :: "jsnum \<Rightarrow> jsnum \<Rightarrow> jsnum \<Rightarrow> sim_state \<Rightarrow> sim_state" where
  "updateParameters m k a s =
     (let s1 = s\<lparr>mass := m, springConstant := k, initialAmplitude := a\<rparr>;
          s2 = s1\<lparr>angularFrequency := Math_sqrt (springConstant s1 / mass s1)\<rparr>;
          s3 = s2\<lparr>period := (Fin 2 * Math_PI) / angularFrequency s2\<rparr>
      in resetSimulation s3)"

section \<open>Animation loop and controls\<close>

definition deltaTime :: "jsnum \<Rightarrow> sim_state \<Rightarrow> jsnum" where
  "deltaTime currentTime s = (currentTime - or_else (lastTime s) currentTime) / Fin 1000"

definition animationLoop :: "jsnum \<Rightarrow> sim_state \<Rightarrow> sim_state" where
  "animationLoop currentTime s =
     (let dt = deltaTime currentTime s;
          s1 = s\<lparr>lastTime := Some currentTime\<rparr>
      in if simulationActive s1
         then (let s2 = drawGraph (drawSimulation (updatePhysics dt s1));
                   (h, s3) = requestAnimationFrame s2
               in s3\<lparr>animationFrameId := Some h\<rparr>)
         else s1)"

text \<open>\<open>now\<close> is what \<^verbatim>\<open>performance.now()\<close> returns at the click.\<close>

definition startSimulation :: "jsnum \<Rightarrow> sim_state \<Rightarrow> sim_state" where
  "startSimulation now s =
     (if simulationActive s then s
      else (let s1 = s\<lparr>simulationActive := True, lastTime := Some now\<rparr>;
                (h, s2) = requestAnimationFrame s1
            in s2\<lparr>animationFrameId := Some h\<rparr>))"

text \<open>
  The browser runs a frame: the oldest outstanding request leaves the list and its
  callback, \<open>animationLoop\<close>, is called with the frame's timestamp. (The page never
  has more than one request outstanding, see \<open>sched_inv\<close>.)
\<close>

definition frame :: "jsnum \<Rightarrow> sim_state \<Rightarrow> sim_state" where
  "frame currentTime s =
     (case rafPending s of
        [] \<Rightarrow> s
      | h # rest \<Rightarrow> animationLoop currentTime (s\<lparr>rafPending := rest\<rparr>))"

text \<open>
  Loading the script: the variables are initialised from the sliders' values, both
  contexts are fresh, and the last statement calls \<open>updateParameters\<close>.
\<close>

definition script_start ::
  "jsnum \<Rightarrow> jsnum \<Rightarrow> jsnum \<Rightarrow> jsnum \<Rightarrow> jsnum \<Rightarrow> jsnum \<Rightarrow> jsnum \<Rightarrow> sim_state" where
  "script_start m k a simW simH graphW graphH =
     \<lparr>mass = m, springConstant = k, initialAmplitude = a,
      angularFrequency = Math_sqrt (k / m),
      period = (Fin 2 * Math_PI) / Math_sqrt (k / m),
      time = Fin 0, position = a, velocity = Fin 0,
      animationFrameId = None, simulationActive = False, graphHistory = [],
      lastTime = None, simCtx = fresh_ctx simW simH, graphCtx = fresh_ctx graphW graphH,
      rafPending = [], rafNext = 1\<rparr>"

definition load ::
  "jsnum \<Rightarrow> jsnum \<Rightarrow> jsnum \<Rightarrow> jsnum \<Rightarrow> jsnum \<Rightarrow> jsnum \<Rightarrow> jsnum \<Rightarrow> sim_state" where
  "load m k a simW simH graphW graphH =
     updateParameters m k a (script_start m k a simW simH graphW graphH)"

text \<open>The states the page can be in: after loading, and after any event.\<close>

inductive reachable :: "sim_state \<Rightarrow> bool" where
  reach_load: "reachable (load m k a simW simH graphW graphH)"
| reach_input: "reachable s \<Longrightarrow> reachable (updateParameters m k a s)"
| reach_start: "reachable s \<Longrightarrow> reachable (startSimulation now s)"
| reach_reset: "reachable s \<Longrightarrow> reachable (resetSimulation s)"
| reach_frame: "reachable s \<Longrightarrow> reachable (frame currentTime s)"

text \<open>A run of physics updates, one per tick, with the given time steps.\<close>

fun ticks :: "jsnum list \<Rightarrow> sim_state \<Rightarrow> sim_state" where
  "ticks [] s = s"
| "ticks (d # ds) s = ticks ds (updatePhysics d s)"

text \<open>
  A page to evaluate the program on: mass 1, spring constant 4, amplitude 1, a
  simulation canvas of 800 by 400 pixels and a graph canvas of 800 by 300.
\<close>

abbreviation demo :: sim_state where
  "demo \<equiv> load (Fin 1) (Fin 4) (Fin 1) (Fin 800) (Fin 400) (Fin 800) (Fin 300)"

text \<open>
  The scheduling invariant: while running, exactly the request the program holds the
  handle of is outstanding; while idle, none is.
\<close>

definition sched_inv :: "sim_state \<Rightarrow> bool" where
  "sched_inv s =
     (0 < rafNext s \<and>
      (if simulationActive s
       then (case animationFrameId s of
               None \<Rightarrow> False
             | Some h \<Rightarrow> h \<noteq> 0 \<and> rafPending s = [h])
       else rafPending s = []))"

section \<open>What each function changes\<close>

lemmas jsnum_ops = plus_jsnum_def minus_jsnum_def uminus_jsnum_def times_jsnum_def
  divide_jsnum_def less_jsnum_def less_eq_jsnum_def

lemma drawSimulation_sel [simp]:
  "mass (drawSimulation s) = mass s"
  "springConstant (drawSimulation s) = springConstant s"
  "initialAmplitude (drawSimulation s) = initialAmplitude s"
  "angularFrequency (drawSimulation s) = angularFrequency s"
  "period (drawSimulation s) = period s"
  "time (drawSimulation s) = time s"
  "position (drawSimulation s) = position s"
  "velocity (drawSimulation s) = velocity s"
  "animationFrameId (drawSimulation s) = animationFrameId s"
  "simulationActive (drawSimulation s) = simulationActive s"
  "graphHistory (drawSimulation s) = graphHistory s"
  "lastTime (drawSimulation s) = lastTime s"
  "graphCtx (drawSimulation s) = graphCtx s"
  "rafPending (drawSimulation s) = rafPending s"
  "rafNext (drawSimulation s) = rafNext s"
  by (simp_all add: drawSimulation_def)

lemma drawGraph_sel [simp]:
  "mass (drawGraph s) = mass s"
  "springConstant (drawGraph s) = springConstant s"
  "initialAmplitude (drawGraph s) = initialAmplitude s"
  "angularFrequency (drawGraph s) = angularFrequency s"
  "period (drawGraph s) = period s"
  "time (drawGraph s) = time s"
  "position (drawGraph s) = position s"
  "velocity (drawGraph s) = velocity s"
  "animationFrameId (drawGraph s) = animationFrameId s"
  "simulationActive (drawGraph s) = simulationActive s"
  "graphHistory (drawGraph s) = graphHistory s"
  "lastTime (drawGraph s) = lastTime s"
  "simCtx (drawGraph s) = simCtx s"
  "rafPending (drawGraph s) = rafPending s"
  "rafNext (drawGraph s) = rafNext s"
  by (simp_all add: drawGraph_def)

lemma run_canvas_size [simp]:
  "canvas_width (run cs c) = canvas_width c"
  "canvas_height (run cs c) = canvas_height c"
proof -
  have e: "canvas_width (exec c x) = canvas_width c \<and> canvas_height (exec c x) = canvas_height c" for c x
    by (cases x) simp_all
  have "canvas_width (foldl exec c cs) = canvas_width c \<and> canvas_height (foldl exec c cs) = canvas_height c"
    by (induction cs arbitrary: c) (simp_all add: e)
  then show "canvas_width (run cs c) = canvas_width c" "canvas_height (run cs c) = canvas_height c"
    by (simp_all add: run_def)
qed

lemma draw_canvas_size [simp]:
  "canvas_width (simCtx (drawSimulation s)) = canvas_width (simCtx s)"
  "canvas_height (simCtx (drawSimulation s)) = canvas_height (simCtx s)"
  "canvas_width (graphCtx (drawGraph s)) = canvas_width (graphCtx s)"
  "canvas_height (graphCtx (drawGraph s)) = canvas_height (graphCtx s)"
  by (simp_all add: drawSimulation_def drawGraph_def)

lemma updatePhysics_sel [simp]:
  "mass (updatePhysics d s) = mass s"
  "springConstant (updatePhysics d s) = springConstant s"
  "initialAmplitude (updatePhysics d s) = initialAmplitude s"
  "angularFrequency (updatePhysics d s) = angularFrequency s"
  "period (updatePhysics d s) = period s"
  "animationFrameId (updatePhysics d s) = animationFrameId s"
  "simulationActive (updatePhysics d s) = simulationActive s"
  "lastTime (updatePhysics d s) = lastTime s"
  "simCtx (updatePhysics d s) = simCtx s"
  "graphCtx (updatePhysics d s) = graphCtx s"
  "rafPending (updatePhysics d s) = rafPending s"
  "rafNext (updatePhysics d s) = rafNext s"
  by (simp_all add: updatePhysics_def Let_def)

lemma updatePhysics_motion:
  "time (updatePhysics d s) = time s + d"
  "position (updatePhysics d s) = initialAmplitude s * Math_cos (angularFrequency s * (time s + d))"
  "velocity (updatePhysics d s) =
     - initialAmplitude s * angularFrequency s * Math_sin (angularFrequency s * (time s + d))"
  by (simp_all add: updatePhysics_def Let_def)

lemma resetSimulation_sel [simp]:
  "mass (resetSimulation s) = mass s"
  "springConstant (resetSimulation s) = springConstant s"
  "initialAmplitude (resetSimulation s) = initialAmplitude s"
  "angularFrequency (resetSimulation s) = angularFrequency s"
  "period (resetSimulation s) = period s"
  "time (resetSimulation s) = Fin 0"
  "position (resetSimulation s) = initialAmplitude s"
  "velocity (resetSimulation s) = Fin 0"
  "animationFrameId (resetSimulation s) = animationFrameId s"
  "simulationActive (resetSimulation s) = False"
  "graphHistory (resetSimulation s) = []"
  "lastTime (resetSimulation s) = lastTime s"
  "rafNext (resetSimulation s) = rafNext s"
  by (simp_all add: resetSimulation_def Let_def cancelAnimationFrame_def split: option.splits)

lemma resetSimulation_pending:
  "rafPending (resetSimulation s) =
     (case animationFrameId s of None \<Rightarrow> rafPending s
      | Some h \<Rightarrow> if h \<noteq> 0 then removeAll h (rafPending s) else rafPending s)"
  by (simp add: resetSimulation_def Let_def cancelAnimationFrame_def split: option.splits)

lemma resetSimulation_canvas_size [simp]:
  "canvas_width (simCtx (resetSimulation s)) = canvas_width (simCtx s)"
  "canvas_height (simCtx (resetSimulation s)) = canvas_height (simCtx s)"
  "canvas_width (graphCtx (resetSimulation s)) = canvas_width (graphCtx s)"
  "canvas_height (graphCtx (resetSimulation s)) = canvas_height (graphCtx s)"
  by (simp_all add: resetSimulation_def Let_def cancelAnimationFrame_def split: option.splits)

lemma updateParameters_sel [simp]:
  "mass (updateParameters m k a s) = m"
  "springConstant (updateParameters m k a s) = k"
  "initialAmplitude (updateParameters m k a s) = a"
  "angularFrequency (updateParameters m k a s) = Math_sqrt (k / m)"
  "period (updateParameters m k a s) = (Fin 2 * Math_PI) / Math_sqrt (k / m)"
  "time (updateParameters m k a s) = Fin 0"
  "position (updateParameters m k a s) = a"
  "velocity (updateParameters m k a s) = Fin 0"
  "animationFrameId (updateParameters m k a s) = animationFrameId s"
  "simulationActive (updateParameters m k a s) = False"
  "graphHistory (updateParameters m k a s) = []"
  "lastTime (updateParameters m k a s) = lastTime s"
  "rafNext (updateParameters m k a s) = rafNext s"
  by (simp_all add: updateParameters_def Let_def)

lemma ticks_params [simp]:
  "initialAmplitude (ticks ds s) = initialAmplitude s"
  "angularFrequency (ticks ds s) = angularFrequency s"
  by (induction ds arbitrary: s) simp_all

lemma ticks_time: "time (ticks ds s) = foldl (+) (time s) ds"
  by (induction ds arbitrary: s) (simp_all add: updatePhysics_motion)

lemma ticks_motion:
  "ds \<noteq> [] \<Longrightarrow>
   position (ticks ds s) = initialAmplitude s * Math_cos (angularFrequency s * time (ticks ds s)) \<and>
   velocity (ticks ds s) =
     - initialAmplitude s * angularFrequency s * Math_sin (angularFrequency s * time (ticks ds s))"
proof (induction ds arbitrary: s)
  case Nil
  then show ?case by simp
next
  case (Cons d ds)
  show ?case
  proof (cases "ds = []")
    case True
    then show ?thesis by (simp add: updatePhysics_motion)
  next
    case False
    from Cons.IH [OF False, of "updatePhysics d s"] show ?thesis by simp
  qed
qed

lemma load_sel [simp]:
  "mass (load m k a sw sh gw gh) = m"
  "springConstant (load m k a sw sh gw gh) = k"
  "initialAmplitude (load m k a sw sh gw gh) = a"
  "angularFrequency (load m k a sw sh gw gh) = Math_sqrt (k / m)"
  "period (load m k a sw sh gw gh) = (Fin 2 * Math_PI) / Math_sqrt (k / m)"
  "time (load m k a sw sh gw gh) = Fin 0"
  "position (load m k a sw sh gw gh) = a"
  "velocity (load m k a sw sh gw gh) = Fin 0"
  "animationFrameId (load m k a sw sh gw gh) = None"
  "simulationActive (load m k a sw sh gw gh) = False"
  "graphHistory (load m k a sw sh gw gh) = []"
  "lastTime (load m k a sw sh gw gh) = None"
  "rafNext (load m k a sw sh gw gh) = 1"
  "rafPending (load m k a sw sh gw gh) = []"
  by (simp_all add: load_def script_start_def resetSimulation_pending updateParameters_def Let_def)

lemma load_canvas_size [simp]:
  "canvas_width (simCtx (load m k a sw sh gw gh)) = sw"
  "canvas_height (simCtx (load m k a sw sh gw gh)) = sh"
  "canvas_width (graphCtx (load m k a sw sh gw gh)) = gw"
  "canvas_height (graphCtx (load m k a sw sh gw gh)) = gh"
  by (simp_all add: load_def script_start_def updateParameters_def Let_def fresh_ctx_def)

section \<open>Physics evaluator\<close>



section \<open>Parameter store\<close>



section \<open>The range of a double\<close>

lemma MAX_VALUE_ge: "4 \<le> MAX_VALUE" "3 \<le> MAX_VALUE" "6 \<le> MAX_VALUE / 2"
  "2 \<le> MAX_VALUE / 2" "2 ^ 540 \<le> MAX_VALUE" "2 ^ 512 \<le> MAX_VALUE"
  by (simp_all add: MAX_VALUE_def)

lemma MAX_VALUE_le: "MAX_VALUE \<le> (2 ^ 512)\<^sup>2"
  by (simp add: MAX_VALUE_def)

lemma MIN_VALUE_le: "MIN_VALUE = (1 / 2 ^ 537)\<^sup>2" "0 < MIN_VALUE"
  "MIN_VALUE \<le> 1 / 2 ^ 512" "MIN_VALUE \<le> 1 / 2 ^ 537" "MIN_VALUE \<le> 4"
  by (simp_all add: MIN_VALUE_def power_divide)

lemma sqrt_in_range:
  assumes "MIN_VALUE \<le> q" "q \<le> MAX_VALUE"
  shows "1 / 2 ^ 537 \<le> sqrt q" "sqrt q \<le> 2 ^ 512"
proof -
  from assms(1) have "(1 / 2 ^ 537)\<^sup>2 \<le> q" by (simp only: MIN_VALUE_le(1))
  then show "1 / 2 ^ 537 \<le> sqrt q" by (rule real_le_rsqrt)
  from assms(2) MAX_VALUE_le have "q \<le> (2 ^ 512)\<^sup>2" by linarith
  then show "sqrt q \<le> 2 ^ 512" by (intro real_le_lsqrt) simp_all
qed

lemma period_in_range:
  assumes "1 / 2 ^ 537 \<le> w" "w \<le> 2 ^ 512"
  shows "MIN_VALUE \<le> 2 * pi / w" "2 * pi / w \<le> MAX_VALUE"
proof -
  have "(0::real) < 1 / 2 ^ 537" by simp
  with assms(1) have w0: "0 < w" by linarith
  have "1 / 2 ^ 512 \<le> 1 / w" using assms(2) w0 by (simp add: frac_le)
  also have "1 / w \<le> 2 * pi / w" using w0 pi_ge_two by (simp add: divide_right_mono)
  finally show "MIN_VALUE \<le> 2 * pi / w" using MIN_VALUE_le(3) by linarith
  have "2 * pi / w \<le> 8 / w" using w0 pi_less_4 by (simp add: divide_right_mono)
  also have "8 / w \<le> 8 / (1 / 2 ^ 537)" using assms(1) by (intro divide_left_mono) simp_all
  also have "\<dots> = 2 ^ 540" by simp
  finally show "2 * pi / w \<le> MAX_VALUE" using MAX_VALUE_ge(5) by linarith
qed

section \<open>Bounds on the motion\<close>

text \<open>
  C10, as the code has it. For a finite amplitude \<open>a \<ge> 0\<close>, a finite mass other than
  0 and spring constant with \<open>springConstant / mass > 0\<close>, the angular frequency derived
  from them and a finite time, where no intermediate result overflows
  (\<open>springConstant / mass\<close> and the new time at most \<open>MAX_VALUE\<close>,
  \<open>angularFrequency * time\<close> and \<open>initialAmplitude * angularFrequency\<close> at most half of
  it in magnitude), a physics update leaves
  \<open>- initialAmplitude \<le> position \<le> initialAmplitude\<close> and
  \<open>- initialAmplitude * angularFrequency \<le> velocity \<le> initialAmplitude * angularFrequency\<close>.
\<close>

theorem updatePhysics_bounded:
  assumes "initialAmplitude s = Fin a" and "0 \<le> a"
    and "springConstant s = Fin k" and "mass s = Fin m" and "m \<noteq> 0" and "0 < k / m"
    and "k / m \<le> MAX_VALUE"
    and "angularFrequency s = Math_sqrt (springConstant s / mass s)"
    and "time s = Fin t" and "d = Fin dt" and "\<bar>t + dt\<bar> \<le> MAX_VALUE"
    and "\<bar>sqrt (k / m) * (t + dt)\<bar> \<le> MAX_VALUE / 2"
    and "a * sqrt (k / m) \<le> MAX_VALUE / 2"
  shows "- initialAmplitude s \<le> position (updatePhysics d s) \<and>
         position (updatePhysics d s) \<le> initialAmplitude s \<and>
         - (initialAmplitude s * angularFrequency s) \<le> velocity (updatePhysics d s) \<and>
         velocity (updatePhysics d s) \<le> initialAmplitude s * angularFrequency s \<and>
         (\<exists>x v. position (updatePhysics d s) = Fin x \<and> velocity (updatePhysics d s) = Fin v
            \<and> \<bar>x\<bar> \<le> a \<and> \<bar>v\<bar> \<le> a * sqrt (k / m))"
proof -
  note m0 = assms(5)
  define w where "w = sqrt (k / m)"
  have w0: "0 \<le> w" using assms(6) by (simp add: w_def)
  have w: "angularFrequency s = Fin w"
    using assms(3,4,6,8) m0 by (simp add: jsnum_ops w_def)
  define x where "x = a * cos (w * (t + dt))"
  define v where "v = - a * w * sin (w * (t + dt))"
  have px: "position (updatePhysics d s) = Fin x"
    using assms(1,9,10) w by (simp add: updatePhysics_motion jsnum_ops x_def)
  have vv: "velocity (updatePhysics d s) = Fin v"
    using assms(1,9,10) w by (simp add: updatePhysics_motion jsnum_ops v_def)
  have "\<bar>x\<bar> = a * \<bar>cos (w * (t + dt))\<bar>"
    using assms(2) by (simp add: x_def abs_mult)
  also have "\<dots> \<le> a * 1"
    using assms(2) by (intro mult_left_mono) (simp_all add: abs_cos_le_one)
  finally have bx: "\<bar>x\<bar> \<le> a" by simp
  have "\<bar>v\<bar> = (a * w) * \<bar>sin (w * (t + dt))\<bar>"
    using assms(2) w0 by (simp add: v_def abs_mult)
  also have "\<dots> \<le> (a * w) * 1"
    using assms(2) w0 by (intro mult_left_mono) (simp_all add: abs_sin_le_one)
  finally have bv: "\<bar>v\<bar> \<le> a * w" by simp
  from bx bv px vv w assms(1) show ?thesis
    by (auto simp: jsnum_ops w_def)
qed

theorem updatePhysics_bounded_witness:
  "initialAmplitude demo = Fin 1 \<and> (0::real) \<le> 1 \<and> springConstant demo = Fin 4
   \<and> mass demo = Fin 1 \<and> (1::real) \<noteq> 0 \<and> (0::real) < 4 / 1 \<and> 4 / 1 \<le> MAX_VALUE
   \<and> angularFrequency demo = Math_sqrt (springConstant demo / mass demo)
   \<and> time demo = Fin 0 \<and> \<bar>0 + 3\<bar> \<le> MAX_VALUE
   \<and> \<bar>sqrt (4 / 1) * (0 + 3)\<bar> \<le> MAX_VALUE / 2 \<and> 1 * sqrt (4 / 1) \<le> MAX_VALUE / 2
   \<and> position (updatePhysics (Fin 3) demo) \<le> Fin 1
   \<and> Fin (- 1) \<le> position (updatePhysics (Fin 3) demo)
   \<and> velocity (updatePhysics (Fin 3) demo) \<le> Fin 2
   \<and> Fin (- 2) \<le> velocity (updatePhysics (Fin 3) demo)"
proof -
  have r: "4 / 1 \<le> MAX_VALUE" "\<bar>0 + 3\<bar> \<le> MAX_VALUE"
    "\<bar>sqrt (4 / 1) * (0 + 3)\<bar> \<le> MAX_VALUE / 2" "1 * sqrt (4 / 1) \<le> MAX_VALUE / 2"
    using MAX_VALUE_ge(1-4) by simp_all
  have "- initialAmplitude demo \<le> position (updatePhysics (Fin 3) demo) \<and>
         position (updatePhysics (Fin 3) demo) \<le> initialAmplitude demo \<and>
         - (initialAmplitude demo * angularFrequency demo) \<le> velocity (updatePhysics (Fin 3) demo) \<and>
         velocity (updatePhysics (Fin 3) demo) \<le> initialAmplitude demo * angularFrequency demo \<and>
         (\<exists>x v. position (updatePhysics (Fin 3) demo) = Fin x \<and> velocity (updatePhysics (Fin 3) demo) = Fin v
            \<and> \<bar>x\<bar> \<le> 1 \<and> \<bar>v\<bar> \<le> 1 * sqrt (4 / 1))"
    by (rule updatePhysics_bounded [where t = 0 and dt = 3 and k = 4 and m = 1])
       (use r in simp_all)
  then have "position (updatePhysics (Fin 3) demo) \<le> Fin 1
   \<and> Fin (- 1) \<le> position (updatePhysics (Fin 3) demo)
   \<and> velocity (updatePhysics (Fin 3) demo) \<le> Fin 2
   \<and> Fin (- 2) \<le> velocity (updatePhysics (Fin 3) demo)"
    by (simp add: jsnum_ops)
  with r show ?thesis by simp
qed

theorem updatePhysics_bounded_counterexample:
  "initialAmplitude (updateParameters (Fin 0) (Fin 10) (Fin 1) demo) = Fin 1 \<and>
   mass (updateParameters (Fin 0) (Fin 10) (Fin 1) demo) = Fin 0 \<and>
   springConstant (updateParameters (Fin 0) (Fin 10) (Fin 1) demo) = Fin 10 \<and>
   initialAmplitude (updateParameters (Fin 0) (Fin 10) (Fin 1) demo) \<ge> Fin 0 \<and>
   springConstant (updateParameters (Fin 0) (Fin 10) (Fin 1) demo)
     / mass (updateParameters (Fin 0) (Fin 10) (Fin 1) demo) > Fin 0 \<and>
   angularFrequency (updateParameters (Fin 0) (Fin 10) (Fin 1) demo) = PInf \<and>
   position (updatePhysics (Fin (2 / 125)) (updateParameters (Fin 0) (Fin 10) (Fin 1) demo)) = NaN \<and>
   velocity (updatePhysics (Fin (2 / 125)) (updateParameters (Fin 0) (Fin 10) (Fin 1) demo)) = NaN \<and>
   \<not> position (updatePhysics (Fin (2 / 125)) (updateParameters (Fin 0) (Fin 10) (Fin 1) demo))
       \<le> initialAmplitude (updateParameters (Fin 0) (Fin 10) (Fin 1) demo) \<and>
   \<not> velocity (updatePhysics (Fin (2 / 125)) (updateParameters (Fin 0) (Fin 10) (Fin 1) demo))
       \<le> initialAmplitude (updateParameters (Fin 0) (Fin 10) (Fin 1) demo)
           * angularFrequency (updateParameters (Fin 0) (Fin 10) (Fin 1) demo)"
  by (simp add: updatePhysics_motion jsnum_ops)

section \<open>Run loop controller\<close>

lemma startSimulation_running: "simulationActive s \<Longrightarrow> startSimulation now s = s"
  by (simp add: startSimulation_def)

lemma startSimulation_idle:
  "\<not> simulationActive s \<Longrightarrow>
   startSimulation now s =
     s\<lparr>simulationActive := True, lastTime := Some now,
       rafPending := rafPending s @ [rafNext s], rafNext := Suc (rafNext s),
       animationFrameId := Some (rafNext s)\<rparr>"
  by (simp add: startSimulation_def requestAnimationFrame_def Let_def)

lemma animationLoop_idle:
  "\<not> simulationActive s \<Longrightarrow> animationLoop c s = s\<lparr>lastTime := Some c\<rparr>"
  by (simp add: animationLoop_def Let_def)

lemma animationLoop_running:
  "simulationActive s \<Longrightarrow>
   animationLoop c s =
     (drawGraph (drawSimulation (updatePhysics (deltaTime c s) (s\<lparr>lastTime := Some c\<rparr>))))
       \<lparr>rafPending := rafPending s @ [rafNext s], rafNext := Suc (rafNext s),
        animationFrameId := Some (rafNext s)\<rparr>"
  by (simp add: animationLoop_def requestAnimationFrame_def Let_def)

lemma sched_inv_load: "sched_inv (load m k a sw sh gw gh)"
  by (simp add: sched_inv_def)

lemma sched_inv_reset: "sched_inv s \<Longrightarrow> sched_inv (resetSimulation s)"
  by (auto simp: sched_inv_def resetSimulation_pending split: option.splits if_splits)

lemma reset_pending_empty: "sched_inv s \<Longrightarrow> rafPending (resetSimulation s) = []"
  by (auto simp: sched_inv_def resetSimulation_pending split: option.splits if_splits)

lemma updateParameters_pending:
  "rafPending (updateParameters m k a s) = rafPending (resetSimulation s)"
  by (simp add: updateParameters_def Let_def resetSimulation_pending split: option.splits)

lemma sched_inv_input: "sched_inv s \<Longrightarrow> sched_inv (updateParameters m k a s)"
  using reset_pending_empty [of s]
  by (simp add: sched_inv_def updateParameters_pending)

lemma sched_inv_start: "sched_inv s \<Longrightarrow> sched_inv (startSimulation now s)"
  by (cases "simulationActive s")
     (simp_all add: startSimulation_running startSimulation_idle sched_inv_def)

lemma sched_inv_frame: "sched_inv s \<Longrightarrow> sched_inv (frame c s)"
  by (cases "simulationActive s")
     (auto simp: frame_def sched_inv_def animationLoop_running split: option.splits list.splits)

lemma reachable_sched_inv: "reachable s \<Longrightarrow> sched_inv s"
  by (induction rule: reachable.induct)
     (simp_all add: sched_inv_load sched_inv_input sched_inv_start sched_inv_reset sched_inv_frame)

text \<open>
  C3. After \<open>resetSimulation\<close>, from any state, the time is 0, the position is the
  initial amplitude, the velocity is 0, the history is empty and the simulation is not
  active; from any state the page can reach, no animation frame request is outstanding
  afterwards, so a later frame changes nothing.
\<close>

theorem resetSimulation_rest_state:
  "time (resetSimulation s) = Fin 0 \<and>
   position (resetSimulation s) = initialAmplitude (resetSimulation s) \<and>
   velocity (resetSimulation s) = Fin 0 \<and>
   graphHistory (resetSimulation s) = [] \<and>
   \<not> simulationActive (resetSimulation s) \<and>
   (reachable s \<longrightarrow>
      rafPending (resetSimulation s) = [] \<and>
      frame c (resetSimulation s) = resetSimulation s)"
  by (auto simp: reset_pending_empty reachable_sched_inv frame_def)

theorem resetSimulation_rest_state_witness:
  "reachable (frame (Fin 1016) (startSimulation (Fin 1000) demo)) \<and>
   simulationActive (frame (Fin 1016) (startSimulation (Fin 1000) demo)) \<and>
   rafPending (frame (Fin 1016) (startSimulation (Fin 1000) demo)) = [2] \<and>
   time (frame (Fin 1016) (startSimulation (Fin 1000) demo)) = Fin (2 / 125) \<and>
   time (resetSimulation (frame (Fin 1016) (startSimulation (Fin 1000) demo))) = Fin 0 \<and>
   position (resetSimulation (frame (Fin 1016) (startSimulation (Fin 1000) demo))) = Fin 1 \<and>
   rafPending (resetSimulation (frame (Fin 1016) (startSimulation (Fin 1000) demo))) = []"
proof -
  let ?s = "frame (Fin 1016) (startSimulation (Fin 1000) demo)"
  have r: "reachable ?s"
    by (intro reach_frame reach_start reach_load)
  have a: "simulationActive ?s \<and> rafPending ?s = [2] \<and> time ?s = Fin (2 / 125)"
    by (simp add: frame_def startSimulation_idle animationLoop_running updatePhysics_motion
        deltaTime_def jsnum_ops)
  have ia: "initialAmplitude (resetSimulation ?s) = Fin 1"
    by (simp add: frame_def startSimulation_idle animationLoop_running)
  from resetSimulation_rest_state [of ?s "Fin 0"] r
  have "time (resetSimulation ?s) = Fin 0 \<and>
      position (resetSimulation ?s) = initialAmplitude (resetSimulation ?s) \<and>
      rafPending (resetSimulation ?s) = []"
    by blast
  with ia r a show ?thesis by (simp only: simp_thms)
qed

text \<open>
  C6. \<open>startSimulation\<close> on a running simulation returns the state as it is, requests
  included. On an idle one it sets \<open>simulationActive\<close>, records the clock value it was
  given, and adds one animation frame request, whose handle it keeps; time, position,
  velocity and history stay. From an idle state the page can reach, that request is
  then the only one outstanding.
\<close>

theorem startSimulation_once:
  "(simulationActive s \<longrightarrow> startSimulation now s = s) \<and>
   (\<not> simulationActive s \<longrightarrow>
      simulationActive (startSimulation now s) \<and>
      lastTime (startSimulation now s) = Some now \<and>
      rafPending (startSimulation now s) = rafPending s @ [rafNext s] \<and>
      animationFrameId (startSimulation now s) = Some (rafNext s) \<and>
      time (startSimulation now s) = time s \<and>
      position (startSimulation now s) = position s \<and>
      velocity (startSimulation now s) = velocity s \<and>
      graphHistory (startSimulation now s) = graphHistory s \<and>
      (reachable s \<longrightarrow> rafPending (startSimulation now s) = [rafNext s]))"
proof -
  have "rafPending s = []" if "reachable s" "\<not> simulationActive s"
    using reachable_sched_inv [OF that(1)] that(2) by (simp add: sched_inv_def)
  then show ?thesis
    by (auto simp: startSimulation_running startSimulation_idle)
qed

theorem startSimulation_once_witness:
  "\<not> simulationActive demo \<and> reachable demo \<and>
   simulationActive (startSimulation (Fin 1000) demo) \<and>
   lastTime (startSimulation (Fin 1000) demo) = Some (Fin 1000) \<and>
   rafPending (startSimulation (Fin 1000) demo) = [1] \<and>
   startSimulation (Fin 2000) (startSimulation (Fin 1000) demo)
     = startSimulation (Fin 1000) demo"
proof -
  have i: "\<not> simulationActive demo" by simp
  have r: "reachable demo" by (rule reach_load)
  from startSimulation_once [of demo "Fin 1000"] i r
  have 1: "simulationActive (startSimulation (Fin 1000) demo) \<and>
      lastTime (startSimulation (Fin 1000) demo) = Some (Fin 1000) \<and>
      rafPending (startSimulation (Fin 1000) demo) = [1]"
    by simp
  with startSimulation_once [of "startSimulation (Fin 1000) demo" "Fin 2000"]
  have "startSimulation (Fin 2000) (startSimulation (Fin 1000) demo)
     = startSimulation (Fin 1000) demo" by blast
  with 1 i r show ?thesis by blast
qed

text \<open>
  C7, as the code has it. On a tick of a running simulation the time advances by
  exactly \<open>deltaTime\<close>, and the tick's timestamp becomes the reference of the next
  one. \<open>deltaTime\<close> is the difference, in seconds, between the tick's timestamp and
  the reference: on the first tick after \<open>startSimulation\<close> the reference is the
  clock value \<open>startSimulation\<close> recorded, so the time advances by what elapsed since
  the click. \<open>deltaTime\<close> is 0 only for a reference that was never set or is 0 (or
  equals the timestamp).
\<close>

theorem animationLoop_time_step:
  "(simulationActive s \<longrightarrow>
      time (animationLoop c s) = time s + deltaTime c s \<and>
      simulationActive (animationLoop c s)) \<and>
   lastTime (animationLoop c s) = Some c \<and>
   (\<forall>x l. c = Fin x \<and> lastTime s = Some (Fin l) \<and> l \<noteq> 0 \<longrightarrow>
      deltaTime c s = Fin ((x - l) / 1000)) \<and>
   (\<forall>x. c = Fin x \<and> (lastTime s = None \<or> lastTime s = Some (Fin 0)) \<longrightarrow>
      deltaTime c s = Fin 0) \<and>
   (\<forall>s0 now. \<not> simulationActive s0 \<and> s = startSimulation now s0 \<longrightarrow>
      simulationActive s \<and> lastTime s = Some now \<and> time s = time s0)"
proof -
  have t: "simulationActive s \<longrightarrow>
      time (animationLoop c s) = time s + deltaTime c s \<and>
      simulationActive (animationLoop c s)"
    by (simp add: animationLoop_running updatePhysics_motion)
  have l: "lastTime (animationLoop c s) = Some c"
    by (cases "simulationActive s") (simp_all add: animationLoop_running animationLoop_idle)
  have d: "\<forall>x l. c = Fin x \<and> lastTime s = Some (Fin l) \<and> l \<noteq> 0 \<longrightarrow>
      deltaTime c s = Fin ((x - l) / 1000)"
    by (simp add: deltaTime_def jsnum_ops)
  have z: "\<forall>x. c = Fin x \<and> (lastTime s = None \<or> lastTime s = Some (Fin 0)) \<longrightarrow>
      deltaTime c s = Fin 0"
    by (auto simp: deltaTime_def jsnum_ops)
  have f: "\<forall>s0 now. \<not> simulationActive s0 \<and> s = startSimulation now s0 \<longrightarrow>
      simulationActive s \<and> lastTime s = Some now \<and> time s = time s0"
    by (simp add: startSimulation_idle)
  from t l d z f show ?thesis by (intro conjI)
qed

theorem animationLoop_time_step_witness:
  "\<not> simulationActive demo \<and>
   simulationActive (startSimulation (Fin 1000) demo) \<and>
   lastTime (startSimulation (Fin 1000) demo) = Some (Fin 1000) \<and> (1000::real) \<noteq> 0 \<and>
   deltaTime (Fin 1016) (startSimulation (Fin 1000) demo) = Fin (2 / 125) \<and>
   time (animationLoop (Fin 1016) (startSimulation (Fin 1000) demo)) = Fin (2 / 125) \<and>
   lastTime demo = None \<and> deltaTime (Fin 1016) demo = Fin 0"
proof -
  let ?s = "startSimulation (Fin 1000) demo"
  have i: "\<not> simulationActive demo" by simp
  from animationLoop_time_step [of ?s "Fin 1016"] i
  have a: "simulationActive ?s \<and> lastTime ?s = Some (Fin 1000) \<and> time ?s = Fin 0"
    by simp
  with animationLoop_time_step [of ?s "Fin 1016"]
  have d: "deltaTime (Fin 1016) ?s = Fin ((1016 - 1000) / 1000)"
    by simp
  from a animationLoop_time_step [of ?s "Fin 1016"]
  have "time (animationLoop (Fin 1016) ?s) = time ?s + deltaTime (Fin 1016) ?s"
    by blast
  with a d have t: "time (animationLoop (Fin 1016) ?s) = Fin (2 / 125)"
    by (simp add: jsnum_ops)
  have n: "lastTime demo = None" by simp
  with animationLoop_time_step [of demo "Fin 1016"]
  have z: "deltaTime (Fin 1016) demo = Fin 0" by simp
  from i a d t n z show ?thesis by simp
qed

theorem first_tick_advances_time_counterexample:
  "\<not> simulationActive demo \<and>
   time (startSimulation (Fin 1000) demo) = Fin 0 \<and>
   rafPending (startSimulation (Fin 1000) demo) = [1] \<and>
   deltaTime (Fin 1016) (startSimulation (Fin 1000) demo) = Fin (2 / 125) \<and>
   deltaTime (Fin 1016) (startSimulation (Fin 1000) demo) \<noteq> Fin 0 \<and>
   time (frame (Fin 1016) (startSimulation (Fin 1000) demo)) = Fin (2 / 125) \<and>
   time (frame (Fin 1016) (startSimulation (Fin 1000) demo))
     \<noteq> time (startSimulation (Fin 1000) demo)"
  by (simp add: frame_def startSimulation_idle animationLoop_running updatePhysics_motion
      deltaTime_def jsnum_ops)

text \<open>
  C5, as the code has it. \<open>updateParameters\<close> stores the three values exactly as
  read, whatever they are, and derives the angular frequency and the period from them;
  nothing is rejected, clamped or reported. For a positive finite mass and spring
  constant whose quotient \<open>springConstant / mass\<close> lies in the range of a double, from
  \<open>MIN_VALUE\<close> to \<open>MAX_VALUE\<close>, the derived angular frequency and period are positive
  and lie in that range too, so they are finite numbers.
\<close>

theorem updateParameters_stores_as_read:
  "mass (updateParameters m k a s) = m \<and>
   springConstant (updateParameters m k a s) = k \<and>
   initialAmplitude (updateParameters m k a s) = a \<and>
   (\<forall>x y. m = Fin x \<and> k = Fin y \<and> 0 < x \<and> 0 < y
        \<and> MIN_VALUE \<le> y / x \<and> y / x \<le> MAX_VALUE \<longrightarrow>
      (\<exists>w T. angularFrequency (updateParameters m k a s) = Fin w \<and>
         period (updateParameters m k a s) = Fin T \<and>
         0 < w \<and> MIN_VALUE \<le> w \<and> w \<le> MAX_VALUE \<and>
         0 < T \<and> MIN_VALUE \<le> T \<and> T \<le> MAX_VALUE))"
proof -
  have range_case: "\<forall>x y. m = Fin x \<and> k = Fin y \<and> 0 < x \<and> 0 < y
        \<and> MIN_VALUE \<le> y / x \<and> y / x \<le> MAX_VALUE \<longrightarrow>
      (\<exists>w T. angularFrequency (updateParameters m k a s) = Fin w \<and>
         period (updateParameters m k a s) = Fin T \<and>
         0 < w \<and> MIN_VALUE \<le> w \<and> w \<le> MAX_VALUE \<and>
         0 < T \<and> MIN_VALUE \<le> T \<and> T \<le> MAX_VALUE)"
  proof (intro allI impI, elim conjE)
    fix x y :: real
    assume mk: "m = Fin x" "k = Fin y" and pos: "0 < x" "0 < y"
      and rng: "MIN_VALUE \<le> y / x" "y / x \<le> MAX_VALUE"
    define w where "w = sqrt (y / x)"
    define T where "T = 2 * pi / w"
    note sw = sqrt_in_range [OF rng, folded w_def]
    note pw = period_in_range [OF sw, folded T_def]
    have "(0::real) < 1 / 2 ^ 537" by simp
    with sw(1) have w0: "0 < w" by linarith
    from pw(1) MIN_VALUE_le(2) have T0: "0 < T" by linarith
    from sw(1) MIN_VALUE_le(4) have wlo: "MIN_VALUE \<le> w" by linarith
    from sw(2) MAX_VALUE_ge(6) have whi: "w \<le> MAX_VALUE" by linarith
    from pos have q: "0 < y / x" by (intro divide_pos_pos)
    with pos have nz: "\<not> y / x < 0" "x \<noteq> 0" by linarith+
    have af: "angularFrequency (updateParameters m k a s) = Fin w"
      using nz by (simp add: mk jsnum_ops w_def)
    from w0 have wnz: "sqrt (y / x) \<noteq> 0" unfolding w_def by linarith
    have pe: "period (updateParameters m k a s) = Fin T"
      using nz wnz by (simp add: mk jsnum_ops Math_PI_def T_def w_def)
    from af pe w0 wlo whi T0 pw
    show "\<exists>w T. angularFrequency (updateParameters m k a s) = Fin w \<and>
         period (updateParameters m k a s) = Fin T \<and>
         0 < w \<and> MIN_VALUE \<le> w \<and> w \<le> MAX_VALUE \<and>
         0 < T \<and> MIN_VALUE \<le> T \<and> T \<le> MAX_VALUE"
      by blast
  qed
  show ?thesis by (intro conjI range_case) simp_all
qed

theorem updateParameters_stores_as_read_witness:
  "(0::real) < 1 \<and> (0::real) < 4 \<and> MIN_VALUE \<le> 4 / 1 \<and> 4 / 1 \<le> MAX_VALUE \<and>
   mass (updateParameters (Fin 1) (Fin 4) (Fin 0) demo) = Fin 1 \<and>
   springConstant (updateParameters (Fin 1) (Fin 4) (Fin 0) demo) = Fin 4 \<and>
   initialAmplitude (updateParameters (Fin 1) (Fin 4) (Fin 0) demo) = Fin 0 \<and>
   (\<exists>w T. angularFrequency (updateParameters (Fin 1) (Fin 4) (Fin 0) demo) = Fin w \<and>
      period (updateParameters (Fin 1) (Fin 4) (Fin 0) demo) = Fin T \<and>
      0 < w \<and> w \<le> MAX_VALUE \<and> 0 < T \<and> T \<le> MAX_VALUE)"
proof -
  have h: "Fin 1 = Fin 1 \<and> Fin 4 = Fin 4 \<and> (0::real) < 1 \<and> (0::real) < 4
      \<and> MIN_VALUE \<le> 4 / 1 \<and> 4 / 1 \<le> MAX_VALUE"
    using MIN_VALUE_le(5) MAX_VALUE_ge(1) by simp
  note th = updateParameters_stores_as_read [of "Fin 1" "Fin 4" "Fin 0" demo]
  from th h
  have e: "\<exists>w T. angularFrequency (updateParameters (Fin 1) (Fin 4) (Fin 0) demo) = Fin w \<and>
      period (updateParameters (Fin 1) (Fin 4) (Fin 0) demo) = Fin T \<and>
      0 < w \<and> w \<le> MAX_VALUE \<and> 0 < T \<and> T \<le> MAX_VALUE"
    by blast
  from th have st: "mass (updateParameters (Fin 1) (Fin 4) (Fin 0) demo) = Fin 1 \<and>
   springConstant (updateParameters (Fin 1) (Fin 4) (Fin 0) demo) = Fin 4 \<and>
   initialAmplitude (updateParameters (Fin 1) (Fin 4) (Fin 0) demo) = Fin 0"
    by blast
  from h e st show ?thesis by blast
qed

theorem updateParameters_validates_counterexample:
  "mass (updateParameters (Fin 0) (Fin 10) (Fin 1) demo) = Fin 0 \<and>
   angularFrequency (updateParameters (Fin 0) (Fin 10) (Fin 1) demo) = PInf \<and>
   period (updateParameters (Fin 0) (Fin 10) (Fin 1) demo) = Fin 0 \<and>
   position (updatePhysics (Fin (2 / 125)) (updateParameters (Fin 0) (Fin 10) (Fin 1) demo)) = NaN \<and>
   velocity (updatePhysics (Fin (2 / 125)) (updateParameters (Fin 0) (Fin 10) (Fin 1) demo)) = NaN \<and>
   mass (updateParameters (Fin (- 1)) (Fin 10) (Fin 1) demo) = Fin (- 1) \<and>
   angularFrequency (updateParameters (Fin (- 1)) (Fin 10) (Fin 1) demo) = NaN \<and>
   period (updateParameters (Fin (- 1)) (Fin 10) (Fin 1) demo) = NaN"
  by (simp add: updatePhysics_motion jsnum_ops Math_PI_def)

section \<open>History buffer\<close>

lemma updatePhysics_history:
  "graphHistory (updatePhysics d s) =
     (if Fin (real (Suc (length (graphHistory s)))) * (graphScaleX * Fin 0.03)
           > canvas_width (graphCtx s) - graphOriginX
      then tl (graphHistory s @ [Sample (time s + d)
                 (initialAmplitude s * Math_cos (angularFrequency s * (time s + d)))])
      else graphHistory s @ [Sample (time s + d)
                 (initialAmplitude s * Math_cos (angularFrequency s * (time s + d)))])"
  by (simp add: updatePhysics_def Let_def)

text \<open>
  C4, at a failing input. On the demo page the simulation is started at clock value
  1000 ms, a first frame comes at 1000 ms and the next one only at 21000 ms. The
  history then holds two samples 20 s apart: 1000 pixels at 50 pixels per second, on a
  plot 750 pixels wide; none was removed, since the test counts samples (1.5 pixels
  each) and does not look at their times.
\<close>

theorem history_span_exceeds_plot_width:
  "graphHistory (frame (Fin 21000) (frame (Fin 1000) (startSimulation (Fin 1000) demo)))
     = [Sample (Fin 0) (Fin 1), Sample (Fin 20) (Fin (cos 40))] \<and>
   canvas_width (graphCtx (frame (Fin 21000) (frame (Fin 1000) (startSimulation (Fin 1000) demo))))
     - graphOriginX = Fin 750 \<and>
   (sample_time (last (graphHistory
        (frame (Fin 21000) (frame (Fin 1000) (startSimulation (Fin 1000) demo)))))
     - sample_time (hd (graphHistory
        (frame (Fin 21000) (frame (Fin 1000) (startSimulation (Fin 1000) demo))))))
     * graphScaleX = Fin 1000 \<and>
   (sample_time (last (graphHistory
        (frame (Fin 21000) (frame (Fin 1000) (startSimulation (Fin 1000) demo)))))
     - sample_time (hd (graphHistory
        (frame (Fin 21000) (frame (Fin 1000) (startSimulation (Fin 1000) demo))))))
     * graphScaleX
     > canvas_width (graphCtx (frame (Fin 21000) (frame (Fin 1000) (startSimulation (Fin 1000) demo))))
         - graphOriginX"
proof -
  let ?s1 = "frame (Fin 1000) (startSimulation (Fin 1000) demo)"
  let ?s2 = "frame (Fin 21000) ?s1"
  have s1: "simulationActive ?s1 \<and> rafPending ?s1 = [2] \<and> lastTime ?s1 = Some (Fin 1000)
      \<and> time ?s1 = Fin 0 \<and> graphHistory ?s1 = [Sample (Fin 0) (Fin 1)]
      \<and> initialAmplitude ?s1 = Fin 1 \<and> angularFrequency ?s1 = Fin 2
      \<and> canvas_width (graphCtx ?s1) = Fin 800"
    by (simp add: frame_def startSimulation_idle animationLoop_running updatePhysics_motion
        updatePhysics_history deltaTime_def graphScaleX_def graphOriginX_def jsnum_ops)
  have dt: "deltaTime (Fin 21000) (?s1\<lparr>rafPending := []\<rparr>) = Fin 20"
    using s1 by (simp add: deltaTime_def jsnum_ops)
  have h: "graphHistory ?s2 = [Sample (Fin 0) (Fin 1), Sample (Fin 20) (Fin (cos 40))]"
    using s1 dt
    by (simp add: frame_def [of _ ?s1] animationLoop_running updatePhysics_history
        graphScaleX_def graphOriginX_def jsnum_ops)
  have w: "canvas_width (graphCtx ?s2) = Fin 800"
    using s1 by (simp add: frame_def [of _ ?s1] animationLoop_running)
  from h w show ?thesis
    by (simp add: graphScaleX_def graphOriginX_def jsnum_ops)
qed

section \<open>Scene renderer\<close>

lemma foldl_exec_lineTo_map:
  "foldl exec c (map (\<lambda>i. lineTo (fx i) (fy i)) xs)
     = c\<lparr>path := path c @ map (\<lambda>i. LineTo (fx i) (fy i)) xs\<rparr>"
  by (induction xs arbitrary: c) simp_all

lemma run_drawSimulation_lineDash:
  "lineDash (run (drawSimulation_calls s) c) = []"
  by (simp add: run_def drawSimulation_calls_def Let_def foldl_exec_lineTo_map)

lemma run_drawSimulation_entry:
  assumes "canvas_width c' = canvas_width c" "canvas_height c' = canvas_height c"
    and "canvas_width c = canvas_width (simCtx s)" "canvas_height c = canvas_height (simCtx s)"
    and "lineDash c' = lineDash c"
  shows "run (drawSimulation_calls s) c' = run (drawSimulation_calls s) c"
  using assms
  by (intro ctx2d.equality)
     (simp_all add: run_def drawSimulation_calls_def Let_def foldl_exec_lineTo_map)

lemma drawSimulation_calls_cong:
  assumes "position s' = position s" "initialAmplitude s' = initialAmplitude s"
    and "canvas_width (simCtx s') = canvas_width (simCtx s)"
    and "canvas_height (simCtx s') = canvas_height (simCtx s)"
  shows "drawSimulation_calls s' = drawSimulation_calls s"
  using assms by (simp add: drawSimulation_calls_def groundY_def currentBlockX_def)

lemma drawSimulation_block:
  "FillRect (equilibriumX + position s * simScale - blockWidth / Fin 2)
      (groundY s - blockHeight) blockWidth blockHeight ''#e74c3c''
     \<in> set (surface (simCtx (drawSimulation s)))"
  by (simp add: drawSimulation_def run_def drawSimulation_calls_def Let_def
      foldl_exec_lineTo_map currentBlockX_def)

lemma drawSimulation_same_drawing:
  assumes "position s' = position s" "initialAmplitude s' = initialAmplitude s"
    and "canvas_width (simCtx s') = canvas_width (simCtx s)"
    and "canvas_height (simCtx s') = canvas_height (simCtx s)"
    and "lineDash (simCtx s') = lineDash (simCtx s)"
  shows "simCtx (drawSimulation s') = simCtx (drawSimulation s)"
proof -
  have "run (drawSimulation_calls s) (simCtx s') = run (drawSimulation_calls s) (simCtx s)"
    using assms(3-5) by (intro run_drawSimulation_entry) simp_all
  then show ?thesis
    by (simp add: drawSimulation_def drawSimulation_calls_cong [OF assms(1-4)])
qed

lemma drawSimulation_twice:
  assumes "lineDash (simCtx s) = []"
  shows "drawSimulation (drawSimulation s) = drawSimulation s"
proof -
  have "simCtx (drawSimulation (drawSimulation s)) = simCtx (drawSimulation s)"
    using assms
    by (intro drawSimulation_same_drawing)
       (simp_all, simp add: drawSimulation_def run_drawSimulation_lineDash)
  then show ?thesis by (simp add: drawSimulation_def)
qed

lemma drawSimulation_lineDash: "lineDash (simCtx (drawSimulation s)) = []"
  by (simp add: drawSimulation_def run_drawSimulation_lineDash)

lemma resetSimulation_lineDash: "lineDash (simCtx (resetSimulation s)) = []"
  by (simp add: resetSimulation_def Let_def drawSimulation_lineDash)

lemma updateParameters_lineDash: "lineDash (simCtx (updateParameters m k a s)) = []"
  by (simp add: updateParameters_def Let_def resetSimulation_lineDash)

lemma reachable_simCtx_lineDash: "reachable s \<Longrightarrow> lineDash (simCtx s) = []"
proof (induction rule: reachable.induct)
  case (reach_load m k a simW simH graphW graphH)
  show ?case by (simp add: load_def updateParameters_lineDash)
next
  case (reach_input s m k a)
  show ?case by (rule updateParameters_lineDash)
next
  case (reach_start s now)
  then show ?case
    by (cases "simulationActive s") (simp_all add: startSimulation_running startSimulation_idle)
next
  case (reach_reset s)
  show ?case by (rule resetSimulation_lineDash)
next
  case (reach_frame s currentTime)
  show ?case
  proof (cases "rafPending s")
    case Nil
    with reach_frame show ?thesis by (simp add: frame_def)
  next
    case (Cons h rest)
    with reach_frame show ?thesis
      by (cases "simulationActive s")
         (simp_all add: frame_def animationLoop_running animationLoop_idle
            drawSimulation_lineDash)
  qed
qed

text \<open>
  C9. \<open>drawSimulation\<close> changes the simulation canvas context and nothing else of the
  state (and not the canvas size). The block is filled with its left edge at
  \<open>equilibriumX + position * simScale - blockWidth / 2\<close>, that is, centred on
  \<open>equilibriumX + position * simScale\<close>. Two states with the same position, amplitude,
  canvas size and line dash on entry give the same context, drawing included; in every
  state the page can reach, drawing a second time changes nothing.
\<close>

theorem drawSimulation_pure:
  "drawSimulation s = s\<lparr>simCtx := simCtx (drawSimulation s)\<rparr> \<and>
   canvas_width (simCtx (drawSimulation s)) = canvas_width (simCtx s) \<and>
   canvas_height (simCtx (drawSimulation s)) = canvas_height (simCtx s) \<and>
   FillRect (equilibriumX + position s * simScale - blockWidth / Fin 2)
      (groundY s - blockHeight) blockWidth blockHeight ''#e74c3c''
     \<in> set (surface (simCtx (drawSimulation s))) \<and>
   (\<forall>s'. position s' = position s \<and> initialAmplitude s' = initialAmplitude s
       \<and> canvas_width (simCtx s') = canvas_width (simCtx s)
       \<and> canvas_height (simCtx s') = canvas_height (simCtx s)
       \<and> lineDash (simCtx s') = lineDash (simCtx s) \<longrightarrow>
      simCtx (drawSimulation s') = simCtx (drawSimulation s)) \<and>
   (reachable s \<longrightarrow> drawSimulation (drawSimulation s) = drawSimulation s)"
proof -
  have 1: "drawSimulation s = s\<lparr>simCtx := simCtx (drawSimulation s)\<rparr>"
    by (simp add: drawSimulation_def)
  have 2: "\<forall>s'. position s' = position s \<and> initialAmplitude s' = initialAmplitude s
       \<and> canvas_width (simCtx s') = canvas_width (simCtx s)
       \<and> canvas_height (simCtx s') = canvas_height (simCtx s)
       \<and> lineDash (simCtx s') = lineDash (simCtx s) \<longrightarrow>
      simCtx (drawSimulation s') = simCtx (drawSimulation s)"
    by (intro allI impI drawSimulation_same_drawing) simp_all
  have 3: "reachable s \<longrightarrow> drawSimulation (drawSimulation s) = drawSimulation s"
    by (intro impI drawSimulation_twice reachable_simCtx_lineDash)
  show ?thesis
    by (intro conjI 1 2 3 drawSimulation_block draw_canvas_size)
qed

theorem drawSimulation_pure_witness:
  "reachable demo \<and>
   drawSimulation (drawSimulation demo) = drawSimulation demo \<and>
   position (demo\<lparr>time := Fin 7, velocity := Fin 5\<rparr>) = position demo \<and>
   initialAmplitude (demo\<lparr>time := Fin 7, velocity := Fin 5\<rparr>) = initialAmplitude demo \<and>
   simCtx (demo\<lparr>time := Fin 7, velocity := Fin 5\<rparr>) = simCtx demo \<and>
   simCtx (drawSimulation (demo\<lparr>time := Fin 7, velocity := Fin 5\<rparr>))
     = simCtx (drawSimulation demo) \<and>
   FillRect (Fin 320) (Fin 310) (Fin 60) (Fin 40) ''#e74c3c''
     \<in> set (surface (simCtx (drawSimulation demo)))"
proof -
  have r: "reachable demo" by (rule reach_load)
  note th = drawSimulation_pure [of demo]
  from th r have i: "drawSimulation (drawSimulation demo) = drawSimulation demo" by blast
  have e: "position (demo\<lparr>time := Fin 7, velocity := Fin 5\<rparr>) = position demo"
    "initialAmplitude (demo\<lparr>time := Fin 7, velocity := Fin 5\<rparr>) = initialAmplitude demo"
    "simCtx (demo\<lparr>time := Fin 7, velocity := Fin 5\<rparr>) = simCtx demo"
    by simp_all
  with th have d: "simCtx (drawSimulation (demo\<lparr>time := Fin 7, velocity := Fin 5\<rparr>))
     = simCtx (drawSimulation demo)" by metis
  from th have "FillRect (equilibriumX + position demo * simScale - blockWidth / Fin 2)
      (groundY demo - blockHeight) blockWidth blockHeight ''#e74c3c''
     \<in> set (surface (simCtx (drawSimulation demo)))" by blast
  then have b: "FillRect (Fin 320) (Fin 310) (Fin 60) (Fin 40) ''#e74c3c''
     \<in> set (surface (simCtx (drawSimulation demo)))"
    by (simp add: equilibriumX_def wallX_def simScale_def blockWidth_def blockHeight_def
        groundY_def jsnum_ops)
  from r i e d b show ?thesis by (intro conjI)
qed

section \<open>Graph renderer\<close>

lemma foldl_exec_polyline:
  "foldl exec c (map (\<lambda>(index, point).
        if index = 0 then moveTo (fx point) (fy point) else lineTo (fx point) (fy point)) xs)
     = c\<lparr>path := path c @ map (\<lambda>(index, point).
        if index = 0 then MoveTo (fx point) (fy point) else LineTo (fx point) (fy point)) xs\<rparr>"
  for xs :: "(nat \<times> sample) list"
  by (induction xs arbitrary: c) (simp_all split: prod.splits)

lemma drawGraph_surface_idle:
  "\<not> period s \<le> time s \<Longrightarrow>
   \<forall>op \<in> set (surface (graphCtx (drawGraph s))).
     \<forall>p lw d. op \<noteq> StrokePath p ''purple'' lw d"
  by (simp add: drawGraph_def run_def drawGraph_calls_def Let_def foldl_exec_polyline)

lemma drawGraph_surface_arrow:
  "period s \<le> time s \<Longrightarrow>
   StrokePath
     [MoveTo (periodStartX s) (graphOriginY s - initialAmplitude s * graphScaleY - Fin 10),
      LineTo (periodStartX s + period s * graphScaleX)
        (graphOriginY s - initialAmplitude s * graphScaleY - Fin 10)]
     ''purple'' (Fin 2) [Fin 2, Fin 4]
    \<in> set (surface (graphCtx (drawGraph s)))"
  by (simp add: drawGraph_def run_def drawGraph_calls_def Let_def foldl_exec_polyline)

lemma drawGraph_surface_heads:
  "period s \<le> time s \<Longrightarrow>
   StrokePath
     [MoveTo (periodStartX s) (graphOriginY s - initialAmplitude s * graphScaleY - Fin 10),
      LineTo (periodStartX s + Fin 5) (graphOriginY s - initialAmplitude s * graphScaleY - Fin 15),
      MoveTo (periodStartX s) (graphOriginY s - initialAmplitude s * graphScaleY - Fin 10),
      LineTo (periodStartX s + Fin 5) (graphOriginY s - initialAmplitude s * graphScaleY - Fin 5)]
     ''purple'' (Fin 2) [Fin 2, Fin 4]
    \<in> set (surface (graphCtx (drawGraph s))) \<and>
   StrokePath
     [MoveTo (periodStartX s + period s * graphScaleX)
        (graphOriginY s - initialAmplitude s * graphScaleY - Fin 10),
      LineTo (periodStartX s + period s * graphScaleX - Fin 5)
        (graphOriginY s - initialAmplitude s * graphScaleY - Fin 15),
      MoveTo (periodStartX s + period s * graphScaleX)
        (graphOriginY s - initialAmplitude s * graphScaleY - Fin 10),
      LineTo (periodStartX s + period s * graphScaleX - Fin 5)
        (graphOriginY s - initialAmplitude s * graphScaleY - Fin 5)]
     ''purple'' (Fin 2) [Fin 2, Fin 4]
    \<in> set (surface (graphCtx (drawGraph s)))"
  by (simp add: drawGraph_def run_def drawGraph_calls_def Let_def foldl_exec_polyline)

lemma completed_periods:
  assumes "0 < p" "p \<le> t"
  shows "Fin t - jsrem (Fin t) (Fin p) = Fin (p * of_int \<lfloor>t / p\<rfloor>)"
proof -
  from assms have "0 \<le> t / p" by simp
  with assms show ?thesis by (simp add: jsnum_ops)
qed

text \<open>
  C8. \<open>drawGraph\<close> strokes the period annotation exactly when \<open>time \<ge> period\<close>: a
  purple dashed line from \<open>periodStartX\<close> to \<open>periodStartX + period * graphScaleX\<close>, 10
  pixels above the upper amplitude line, with an arrow head at each end; otherwise
  nothing purple is stroked. \<open>periodStartX\<close> is the screen position of
  \<open>time - time % period\<close>, which for a finite time and period with
  \<open>0 < period \<le> time\<close> is the last completed multiple of the period.
\<close>

theorem drawGraph_period_annotation:
  "(StrokePath
      [MoveTo (periodStartX s) (graphOriginY s - initialAmplitude s * graphScaleY - Fin 10),
       LineTo (periodStartX s + period s * graphScaleX)
         (graphOriginY s - initialAmplitude s * graphScaleY - Fin 10)]
      ''purple'' (Fin 2) [Fin 2, Fin 4]
     \<in> set (surface (graphCtx (drawGraph s)))) = (time s \<ge> period s) \<and>
   ((\<exists>p lw d. StrokePath p ''purple'' lw d \<in> set (surface (graphCtx (drawGraph s))))
      = (time s \<ge> period s)) \<and>
   (time s \<ge> period s \<longrightarrow>
      StrokePath
        [MoveTo (periodStartX s) (graphOriginY s - initialAmplitude s * graphScaleY - Fin 10),
         LineTo (periodStartX s + Fin 5) (graphOriginY s - initialAmplitude s * graphScaleY - Fin 15),
         MoveTo (periodStartX s) (graphOriginY s - initialAmplitude s * graphScaleY - Fin 10),
         LineTo (periodStartX s + Fin 5) (graphOriginY s - initialAmplitude s * graphScaleY - Fin 5)]
        ''purple'' (Fin 2) [Fin 2, Fin 4]
       \<in> set (surface (graphCtx (drawGraph s))) \<and>
      StrokePath
        [MoveTo (periodStartX s + period s * graphScaleX)
           (graphOriginY s - initialAmplitude s * graphScaleY - Fin 10),
         LineTo (periodStartX s + period s * graphScaleX - Fin 5)
           (graphOriginY s - initialAmplitude s * graphScaleY - Fin 15),
         MoveTo (periodStartX s + period s * graphScaleX)
           (graphOriginY s - initialAmplitude s * graphScaleY - Fin 10),
         LineTo (periodStartX s + period s * graphScaleX - Fin 5)
           (graphOriginY s - initialAmplitude s * graphScaleY - Fin 5)]
        ''purple'' (Fin 2) [Fin 2, Fin 4]
       \<in> set (surface (graphCtx (drawGraph s)))) \<and>
   periodStartX s
     = graphOriginX + (time s - jsrem (time s) (period s)) * graphScaleX
         - currentGraphXOffset s \<and>
   (\<forall>t p. time s = Fin t \<and> period s = Fin p \<and> 0 < p \<and> p \<le> t \<longrightarrow>
      time s - jsrem (time s) (period s) = Fin (p * of_int \<lfloor>t / p\<rfloor>))"
proof -
  have none: "\<not> period s \<le> time s \<Longrightarrow>
      StrokePath p ''purple'' lw d \<notin> set (surface (graphCtx (drawGraph s)))" for p lw d
    using drawGraph_surface_idle [of s] by blast
  have 1: "(StrokePath
      [MoveTo (periodStartX s) (graphOriginY s - initialAmplitude s * graphScaleY - Fin 10),
       LineTo (periodStartX s + period s * graphScaleX)
         (graphOriginY s - initialAmplitude s * graphScaleY - Fin 10)]
      ''purple'' (Fin 2) [Fin 2, Fin 4]
     \<in> set (surface (graphCtx (drawGraph s)))) = (time s \<ge> period s)"
    using drawGraph_surface_arrow [of s] none by blast
  have 2: "(\<exists>p lw d. StrokePath p ''purple'' lw d \<in> set (surface (graphCtx (drawGraph s))))
      = (time s \<ge> period s)"
    using drawGraph_surface_arrow [of s] none by blast
  have 3: "time s \<ge> period s \<longrightarrow>
      StrokePath
        [MoveTo (periodStartX s) (graphOriginY s - initialAmplitude s * graphScaleY - Fin 10),
         LineTo (periodStartX s + Fin 5) (graphOriginY s - initialAmplitude s * graphScaleY - Fin 15),
         MoveTo (periodStartX s) (graphOriginY s - initialAmplitude s * graphScaleY - Fin 10),
         LineTo (periodStartX s + Fin 5) (graphOriginY s - initialAmplitude s * graphScaleY - Fin 5)]
        ''purple'' (Fin 2) [Fin 2, Fin 4]
       \<in> set (surface (graphCtx (drawGraph s))) \<and>
      StrokePath
        [MoveTo (periodStartX s + period s * graphScaleX)
           (graphOriginY s - initialAmplitude s * graphScaleY - Fin 10),
         LineTo (periodStartX s + period s * graphScaleX - Fin 5)
           (graphOriginY s - initialAmplitude s * graphScaleY - Fin 15),
         MoveTo (periodStartX s + period s * graphScaleX)
           (graphOriginY s - initialAmplitude s * graphScaleY - Fin 10),
         LineTo (periodStartX s + period s * graphScaleX - Fin 5)
           (graphOriginY s - initialAmplitude s * graphScaleY - Fin 5)]
        ''purple'' (Fin 2) [Fin 2, Fin 4]
       \<in> set (surface (graphCtx (drawGraph s)))"
    by (intro impI drawGraph_surface_heads)
  have 4: "periodStartX s
     = graphOriginX + (time s - jsrem (time s) (period s)) * graphScaleX
         - currentGraphXOffset s"
    by (simp add: periodStartX_def)
  have 5: "\<forall>t p. time s = Fin t \<and> period s = Fin p \<and> 0 < p \<and> p \<le> t \<longrightarrow>
      time s - jsrem (time s) (period s) = Fin (p * of_int \<lfloor>t / p\<rfloor>)"
    using completed_periods by auto
  show ?thesis by (intro conjI 1 2 3 4 5)
qed

theorem drawGraph_period_annotation_witness:
  "time (ticks [Fin 4] demo) = Fin 4 \<and> period (ticks [Fin 4] demo) = Fin pi \<and>
   (0::real) < pi \<and> pi \<le> (4::real) \<and>
   time (ticks [Fin 4] demo) \<ge> period (ticks [Fin 4] demo) \<and>
   StrokePath
      [MoveTo (periodStartX (ticks [Fin 4] demo)) (Fin 60),
       LineTo (periodStartX (ticks [Fin 4] demo) + Fin (50 * pi)) (Fin 60)]
      ''purple'' (Fin 2) [Fin 2, Fin 4]
     \<in> set (surface (graphCtx (drawGraph (ticks [Fin 4] demo)))) \<and>
   time (ticks [Fin 4] demo) - jsrem (time (ticks [Fin 4] demo)) (period (ticks [Fin 4] demo))
     = Fin (pi * of_int \<lfloor>4 / pi\<rfloor>) \<and>
   \<not> time demo \<ge> period demo \<and>
   (\<forall>p lw d. StrokePath p ''purple'' lw d \<notin> set (surface (graphCtx (drawGraph demo))))"
proof -
  let ?s = "ticks [Fin 4] demo"
  have pi4: "pi \<le> (4::real)" using pi_less_4 by simp
  have t: "time ?s = Fin 4" by (simp add: updatePhysics_motion jsnum_ops)
  have p: "period ?s = Fin pi" by (simp add: jsnum_ops Math_PI_def)
  have oy: "graphOriginY ?s - initialAmplitude ?s * graphScaleY - Fin 10 = Fin 60"
    by (simp add: graphOriginY_def graphScaleY_def jsnum_ops)
  have gx: "period ?s * graphScaleX = Fin (50 * pi)"
    by (simp add: graphScaleX_def jsnum_ops Math_PI_def mult.commute)
  from t p pi4 have ge: "time ?s \<ge> period ?s" by (simp add: jsnum_ops)
  note th = drawGraph_period_annotation [of ?s]
  from th ge have "StrokePath
      [MoveTo (periodStartX ?s) (graphOriginY ?s - initialAmplitude ?s * graphScaleY - Fin 10),
       LineTo (periodStartX ?s + period ?s * graphScaleX)
         (graphOriginY ?s - initialAmplitude ?s * graphScaleY - Fin 10)]
      ''purple'' (Fin 2) [Fin 2, Fin 4]
     \<in> set (surface (graphCtx (drawGraph ?s)))" by blast
  then have a: "StrokePath
      [MoveTo (periodStartX ?s) (Fin 60), LineTo (periodStartX ?s + Fin (50 * pi)) (Fin 60)]
      ''purple'' (Fin 2) [Fin 2, Fin 4]
     \<in> set (surface (graphCtx (drawGraph ?s)))" by (simp only: oy gx)
  from th t p pi4 have b: "time ?s - jsrem (time ?s) (period ?s) = Fin (pi * of_int \<lfloor>4 / pi\<rfloor>)"
    by (metis pi_gt_zero)
  have n: "\<not> time demo \<ge> period demo"
    using pi_gt_zero by (simp add: jsnum_ops Math_PI_def not_le del: pi_gt_zero)
  with drawGraph_period_annotation [of demo]
  have c: "\<forall>p lw d. StrokePath p ''purple'' lw d \<notin> set (surface (graphCtx (drawGraph demo)))"
    by blast
  from t p pi4 ge a b n c show ?thesis by (intro conjI) simp_all
qed

section \<open>Invariants of the running page\<close>

lemma updateParameters_canvas_size [simp]:
  "canvas_width (graphCtx (updateParameters m k a s)) = canvas_width (graphCtx s)"
  "canvas_width (simCtx (updateParameters m k a s)) = canvas_width (simCtx s)"
  by (simp_all add: updateParameters_def Let_def)

lemma frame_cases:
  "frame c s =
     (case rafPending s of
        [] \<Rightarrow> s
      | h # rest \<Rightarrow>
          if simulationActive s
          then (drawGraph (drawSimulation
                  (updatePhysics (deltaTime c s) (s\<lparr>rafPending := rest, lastTime := Some c\<rparr>))))
                 \<lparr>rafPending := rest @ [rafNext s], rafNext := Suc (rafNext s),
                  animationFrameId := Some (rafNext s)\<rparr>
          else s\<lparr>rafPending := rest, lastTime := Some c\<rparr>)"
  by (simp add: frame_def animationLoop_running animationLoop_idle deltaTime_def
      split: list.splits)

text \<open>
  In every state the page can reach, the request whose handle the program holds is
  the only one outstanding while the simulation runs, and none is while it is idle.
\<close>

theorem one_request_outstanding:
  "reachable s \<Longrightarrow>
   (simulationActive s \<longrightarrow> (\<exists>h. animationFrameId s = Some h \<and> rafPending s = [h])) \<and>
   (\<not> simulationActive s \<longrightarrow> rafPending s = [])"
  using reachable_sched_inv [of s]
  by (auto simp: sched_inv_def split: option.splits)

theorem one_request_outstanding_witness:
  "reachable (frame (Fin 1016) (startSimulation (Fin 1000) demo)) \<and>
   simulationActive (frame (Fin 1016) (startSimulation (Fin 1000) demo)) \<and>
   animationFrameId (frame (Fin 1016) (startSimulation (Fin 1000) demo)) = Some 2 \<and>
   rafPending (frame (Fin 1016) (startSimulation (Fin 1000) demo)) = [2]"
proof -
  let ?s = "frame (Fin 1016) (startSimulation (Fin 1000) demo)"
  have r: "reachable ?s"
    by (intro reach_frame reach_start reach_load)
  have a: "simulationActive ?s \<and> animationFrameId ?s = Some 2"
    by (simp add: frame_cases startSimulation_idle)
  with one_request_outstanding [OF r] have "rafPending ?s = [2]" by auto
  with r a show ?thesis by simp
qed

text \<open>
  In every state the page can reach, the angular frequency and the period are the
  ones derived from the stored mass and spring constant.
\<close>

theorem reachable_derived_fields:
  "reachable s \<Longrightarrow>
   angularFrequency s = Math_sqrt (springConstant s / mass s) \<and>
   period s = (Fin 2 * Math_PI) / angularFrequency s"
proof (induction rule: reachable.induct)
  case (reach_load m k a simW simH graphW graphH)
  show ?case by simp
next
  case (reach_input s m k a)
  show ?case by simp
next
  case (reach_start s now)
  then show ?case
    by (cases "simulationActive s") (simp_all add: startSimulation_running startSimulation_idle)
next
  case (reach_reset s)
  then show ?case by simp
next
  case (reach_frame s currentTime)
  then show ?case by (simp add: frame_cases split: list.splits)
qed

theorem reachable_derived_fields_witness:
  "reachable (frame (Fin 1016) (startSimulation (Fin 1000) demo)) \<and>
   angularFrequency (frame (Fin 1016) (startSimulation (Fin 1000) demo)) = Fin 2 \<and>
   period (frame (Fin 1016) (startSimulation (Fin 1000) demo)) = Fin pi"
proof -
  let ?s = "frame (Fin 1016) (startSimulation (Fin 1000) demo)"
  have r: "reachable ?s"
    by (intro reach_frame reach_start reach_load)
  have mk: "springConstant ?s = Fin 4" "mass ?s = Fin 1"
    by (simp_all add: frame_cases startSimulation_idle)
  from reachable_derived_fields [OF r] mk have "angularFrequency ?s = Fin 2"
    by (simp add: jsnum_ops)
  moreover from this reachable_derived_fields [OF r] have "period ?s = Fin pi"
    by (simp add: jsnum_ops Math_PI_def)
  ultimately show ?thesis using r by simp
qed

text \<open>
  What the eviction test of \<open>updatePhysics\<close> does keep: a physics update appends the new sample and
  removes at most the oldest one, the rest staying in order; and in every state the
  page can reach the history is empty or its length, at 1.5 pixels a sample, is not
  above the plot width.
\<close>

theorem history_count_bound:
  "(graphHistory (updatePhysics d s)
      = graphHistory s @ [Sample (time (updatePhysics d s)) (position (updatePhysics d s))]
    \<or> graphHistory (updatePhysics d s)
      = tl (graphHistory s @ [Sample (time (updatePhysics d s)) (position (updatePhysics d s))])) \<and>
   (reachable s \<longrightarrow>
      graphHistory s = [] \<or>
      \<not> (Fin (real (length (graphHistory s))) * (graphScaleX * Fin 0.03)
           > canvas_width (graphCtx s) - graphOriginX))"
proof -
  have step: "graphHistory (updatePhysics d s) = [] \<or>
      \<not> (Fin (real (length (graphHistory (updatePhysics d s)))) * (graphScaleX * Fin 0.03)
           > canvas_width (graphCtx s) - graphOriginX)"
    if "graphHistory s = [] \<or>
      \<not> (Fin (real (length (graphHistory s))) * (graphScaleX * Fin 0.03)
           > canvas_width (graphCtx s) - graphOriginX)" for d s
    using that by (cases "graphHistory s") (auto simp: updatePhysics_history)
  have inv: "graphHistory s = [] \<or>
      \<not> (Fin (real (length (graphHistory s))) * (graphScaleX * Fin 0.03)
           > canvas_width (graphCtx s) - graphOriginX)" if "reachable s"
    using that
  proof (induction rule: reachable.induct)
    case (reach_load m k a simW simH graphW graphH)
    show ?case by simp
  next
    case (reach_input s m k a)
    show ?case by simp
  next
    case (reach_start s now)
    then show ?case
      by (cases "simulationActive s") (simp_all add: startSimulation_running startSimulation_idle)
  next
    case (reach_reset s)
    show ?case by simp
  next
    case (reach_frame s c)
    show ?case
    proof (cases "rafPending s")
      case Nil
      with reach_frame show ?thesis by (simp add: frame_cases)
    next
      case (Cons h rest)
      show ?thesis
      proof (cases "simulationActive s")
        case True
        from step [of "s\<lparr>rafPending := rest, lastTime := Some c\<rparr>" "deltaTime c s"] reach_frame.IH
        show ?thesis using Cons True by (simp add: frame_cases)
      next
        case False
        with Cons reach_frame.IH show ?thesis by (simp add: frame_cases)
      qed
    qed
  qed
  have app: "graphHistory (updatePhysics d s)
      = graphHistory s @ [Sample (time (updatePhysics d s)) (position (updatePhysics d s))]
    \<or> graphHistory (updatePhysics d s)
      = tl (graphHistory s @ [Sample (time (updatePhysics d s)) (position (updatePhysics d s))])"
    by (simp add: updatePhysics_history updatePhysics_motion)
  from app inv show ?thesis by blast
qed

theorem history_count_bound_witness:
  "reachable (frame (Fin 1016) (startSimulation (Fin 1000) demo)) \<and>
   graphHistory (frame (Fin 1016) (startSimulation (Fin 1000) demo)) \<noteq> [] \<and>
   \<not> (Fin (real (length (graphHistory (frame (Fin 1016) (startSimulation (Fin 1000) demo)))))
         * (graphScaleX * Fin 0.03)
        > canvas_width (graphCtx (frame (Fin 1016) (startSimulation (Fin 1000) demo)))
            - graphOriginX)"
proof -
  let ?s = "frame (Fin 1016) (startSimulation (Fin 1000) demo)"
  have r: "reachable ?s"
    by (intro reach_frame reach_start reach_load)
  have n: "graphHistory ?s \<noteq> []"
    by (simp add: frame_cases startSimulation_idle updatePhysics_history
        graphScaleX_def graphOriginX_def jsnum_ops)
  with history_count_bound [of _ ?s] r show ?thesis by blast
qed

end
